theory Spec2Isabelle
  imports Main "HOL-Library.Char_ord" "HOL-Library.List_Lexorder"
begin

section \<open>Python values shared by the modules\<close>

text \<open>
  Exceptions are values. One datatype holds every exception class that the modelled
  functions raise or let through; the string is the exception's message where the
  source gives one.
\<close>

datatype exn =
    StopIteration
  | AssertionError string
  | ValueError string
  | IndexError
  | TypeError
  | UnboundLocalError string
  | SubmissionError string
  | PollingError string
  | FileNotFoundError
  | PickleError
  | SystemExit int

text \<open>The \<open>logging\<close> module: the log is a list of entries, appended to.\<close>

datatype log_entry = Info string | Warning string | Critical string

definition nl :: string where
  "nl = [CHR 0x0A]"

definition sq :: string where
  "sq = [CHR 0x27]"

text \<open>\<open>sep.join(xs)\<close>\<close>

fun join :: "string \<Rightarrow> string list \<Rightarrow> string" where
  "join sep [] = []"
| "join sep [x] = x"
| "join sep (x # y # ys) = x @ sep @ join sep (y # ys)"


section \<open>search.py\<close>

subsection \<open>Data\<close>

text \<open>
  A state is a Python dict from a key to a task; its truth value is that of a dict
  (false exactly when empty). The task type stays a parameter.
\<close>

type_synonym 't state = "(string \<times> 't) list"

record 't Successor =
  state :: "'t state"
  change_msg :: string

text \<open>
  The status constants of \<open>EvaluationTask\<close> that search.py names, and
  \<open>OTHER\<close> for any other value of the attribute (the final \<open>else\<close> branches),
  carrying its printed form.
\<close>

datatype status =
    DONE_AND_BEHAVIOR_PRESENT
  | DONE_AND_BEHAVIOR_NOT_PRESENT
  | OUT_OF_RESOURCES
  | CRITICAL
  | CANCELED
  | OTHER string

record 't EvaluationTask =
  successor :: "'t Successor"
  successor_id :: nat
  status :: status
  run_dir :: string
  error_msg :: "string option"

text \<open>
  The execution environment is outside search.py. It is a parameter: its attribute
  \<open>batch_size\<close>, and its methods \<open>start_new_iteration\<close> and \<open>run\<close> acting on an
  environment state \<open>'e\<close>. \<open>run\<close> gets the evaluator path, the batch and the completion
  callback, and either raises or returns the batch's tasks.
\<close>

record ('e, 't) environment =
  batch_size :: nat
  start_new_iteration :: "'e \<Rightarrow> 'e"
  run :: "'e \<Rightarrow> string \<Rightarrow> 't Successor list \<Rightarrow> ('t EvaluationTask \<Rightarrow> nat list option)
            \<Rightarrow> (exn + 't EvaluationTask list) \<times> 'e"

text \<open>
  Modelled from the spec: \<open>machetli.tools.batched\<close> is not part of the sources at
  hand; the successor stream is cut into consecutive batches of at most \<open>n\<close> candidates.
\<close>

function batched :: "'a list \<Rightarrow> nat \<Rightarrow> 'a list list" where
  "batched xs n = (if n = 0 \<or> xs = [] then [] else take n xs # batched (drop n xs) n)"
  by pat_completeness auto
termination
  by (relation "measure (\<lambda>(xs, n). length xs)") auto

declare batched.simps [simp del]

subsection \<open>\<open>_get_improving_successor\<close>\<close>

text \<open>The completion callback (a closure over \<open>deterministic\<close> and \<open>task_ids\<close>).\<close>

definition on_task_completed ::
  "bool \<Rightarrow> nat list \<Rightarrow> 't EvaluationTask \<Rightarrow> nat list option" where
  "on_task_completed deterministic task_ids task =
     (if deterministic \<and> status task \<noteq> DONE_AND_BEHAVIOR_NOT_PRESENT
      then Some (filter (\<lambda>i. i > successor_id task) task_ids)
      else if \<not> deterministic \<and> status task = DONE_AND_BEHAVIOR_PRESENT
      then Some task_ids
      else None)"

definition out_of_resources_text :: string where
  "out_of_resources_text =
     nl @ ''An evaluator ran out of resources. With the option ''
     @ sq @ ''deterministic'' @ sq @ '' an improving successor found later ''
     @ ''would not count.''"

definition critical_text :: string where
  "critical_text =
     nl @ ''A critical error occurred in an evaluator. With the ''
     @ ''option '' @ sq @ ''deterministic'' @ sq @ '' an improving successor found ''
     @ ''later would not count.''"

text \<open>How an f-string prints a nullable string.\<close>

definition fmt_opt :: "string option \<Rightarrow> string" where
  "fmt_opt m = (case m of None \<Rightarrow> ''None'' | Some s \<Rightarrow> s)"

definition critical_warning :: "'t EvaluationTask \<Rightarrow> log_entry" where
  "critical_warning task =
     Warning (fmt_opt (error_msg task) @ nl @ ''Critical error in '' @ sq @ run_dir task @ sq)"

text \<open>
  The loop \<open>for task in tasks\<close> over one batch's tasks. It raises, returns from
  \<open>_get_improving_successor\<close>, or runs to its end with the updated set
  \<open>tasks_out_of_resources\<close> (kept as a list: the tasks are distinct objects and the
  set is only read through \<open>sorted\<close>).
\<close>

datatype ('r, 'c) loop_result = Raised exn | Returned 'r | Finished 'c

fun for_tasks ::
  "bool \<Rightarrow> 't EvaluationTask list \<Rightarrow> 't EvaluationTask list \<Rightarrow> log_entry list
     \<Rightarrow> ('t state option \<times> string, 't EvaluationTask list) loop_result \<times> log_entry list" where
  "for_tasks deterministic [] oor lg = (Finished oor, lg)"
| "for_tasks deterministic (task # tasks) oor lg =
     (case status task of
        DONE_AND_BEHAVIOR_NOT_PRESENT \<Rightarrow> for_tasks deterministic tasks oor lg
      | DONE_AND_BEHAVIOR_PRESENT \<Rightarrow>
          (Returned (Some (state (successor task)), change_msg (successor task)), lg)
      | OUT_OF_RESOURCES \<Rightarrow>
          (if deterministic
           then (case error_msg task of
                   None \<Rightarrow> (Raised TypeError, lg)
                 | Some m \<Rightarrow> (Returned (None, m @ out_of_resources_text), lg))
           else for_tasks deterministic tasks (oor @ [task]) lg)
      | CRITICAL \<Rightarrow>
          (if deterministic
           then (case error_msg task of
                   None \<Rightarrow> (Raised TypeError, lg)
                 | Some m \<Rightarrow> (Returned (None, m @ critical_text), lg))
           else for_tasks deterministic tasks oor (lg @ [critical_warning task]))
      | CANCELED \<Rightarrow>
          (if \<not> deterministic then for_tasks deterministic tasks oor lg
           else (Raised (AssertionError []), lg))
      | OTHER s \<Rightarrow>
          (Raised (AssertionError (''Unexpected task status: '' @ sq @ s @ sq @ ''.'')), lg))"

definition no_improving_message :: "'t EvaluationTask list \<Rightarrow> string" where
  "no_improving_message oor =
     ''No improving successor was found.''
     @ (if oor \<noteq> []
        then '' Note that the following tasks ran out of resources and thus''
             @ '' could not successfully be checked:'' @ nl
             @ join nl (sort (map run_dir oor))
        else [])"

text \<open>The loop \<open>for batch in batched(...)\<close> and the code after it.\<close>

fun for_batches ::
  "('e, 't) environment \<Rightarrow> bool \<Rightarrow> string \<Rightarrow> 't Successor list list
     \<Rightarrow> 't EvaluationTask list \<Rightarrow> 'e \<Rightarrow> log_entry list
     \<Rightarrow> (exn + 't state option \<times> string) \<times> 'e \<times> log_entry list" where
  "for_batches environment deterministic evaluator_path [] oor e lg =
     (Inr (None, no_improving_message oor), e, lg)"
| "for_batches environment deterministic evaluator_path (batch # batches) oor e lg =
     (let task_ids = [0..<length batch] in
      case run environment e evaluator_path batch (on_task_completed deterministic task_ids) of
        (Inl ex, e') \<Rightarrow> (Inl ex, e', lg)
      | (Inr tasks, e') \<Rightarrow>
          (case for_tasks deterministic tasks oor lg of
             (Raised ex, lg') \<Rightarrow> (Inl ex, e', lg')
           | (Returned r, lg') \<Rightarrow> (Inr r, e', lg')
           | (Finished oor', lg') \<Rightarrow>
               for_batches environment deterministic evaluator_path batches oor' e' lg'))"

definition get_improving_successor ::
  "('e, 't) environment \<Rightarrow> bool \<Rightarrow> string \<Rightarrow> 't Successor list \<Rightarrow> 'e \<Rightarrow> log_entry list
     \<Rightarrow> (exn + 't state option \<times> string) \<times> 'e \<times> log_entry list" where
  "get_improving_successor environment deterministic evaluator_path successors e lg =
     for_batches environment deterministic evaluator_path
       (batched successors (batch_size environment)) [] e lg"


subsection \<open>\<open>search\<close>\<close>

text \<open>The loop over the tasks of the initial state's evaluation.\<close>

fun check_initial ::
  "bool \<Rightarrow> 't EvaluationTask list \<Rightarrow> log_entry list \<Rightarrow> (exn + unit) \<times> log_entry list" where
  "check_initial deterministic [] lg = (Inr (), lg)"
| "check_initial deterministic (task # tasks) lg =
     (case status task of
        DONE_AND_BEHAVIOR_PRESENT \<Rightarrow>
          check_initial deterministic tasks (lg @ [Info ''Initial has property.''])
      | DONE_AND_BEHAVIOR_NOT_PRESENT \<Rightarrow>
          (Inl (ValueError ''Initial state does not have the evaluated property.''),
           lg @ [Critical ''Initial state does not have property!''])
      | OUT_OF_RESOURCES \<Rightarrow>
          (let lg' = lg @ [Warning (''Initial state evaluation ran out of resources! ''
                                    @ ''Cannot verify if it has the property.'')]
           in if deterministic
              then (Inl (ValueError (''Initial state evaluation ran out of resources! ''
                                     @ ''Cannot verify if it has the evaluated property.'')), lg')
              else check_initial deterministic tasks lg')
      | CRITICAL \<Rightarrow>
          (let lg' = lg @ [Critical (''Initial state evaluation failed with a critical error! ''
                                     @ ''Cannot verify if it has the property.'')]
           in if deterministic
              then (Inl (ValueError (''Initial state evaluation failed with a critical error! ''
                                     @ ''Cannot verify if it has the evaluated property.'')), lg')
              else check_initial deterministic tasks lg')
      | CANCELED \<Rightarrow>
          check_initial deterministic tasks
            (lg @ [Warning (''Initial state evaluation was canceled. ''
                            @ ''Cannot verify if it has the property.'')])
      | OTHER s \<Rightarrow>
          (Inl (ValueError (''Unexpected task status: '' @ sq @ s @ sq @ ''.'')), lg))"

definition submission_failed :: "string \<Rightarrow> log_entry" where
  "submission_failed e =
     Critical (''Terminating search because job submission for successor evaluation failed:''
               @ nl @ e)"

definition polling_failed :: "string \<Rightarrow> log_entry" where
  "polling_failed e =
     Critical (''Terminating search because querying the status of a submitted successor ''
               @ ''evaluation failed:'' @ nl @ e)"

text \<open>
  The code after the \<open>try\<close> statement of the loop body. The locals \<open>improving_state\<close>
  and \<open>message\<close> are unbound (\<open>None\<close>) until the first assignment; reading an unbound
  local raises. The result says whether the loop goes on (with the new current state)
  or the function returns.
\<close>

definition after_try ::
  "'t state \<Rightarrow> 't state option option \<Rightarrow> string option \<Rightarrow> log_entry list
     \<Rightarrow> ('t state, 't state) loop_result \<times> log_entry list" where
  "after_try current_state improving_state message lg =
     (case message of
        None \<Rightarrow> (Raised (UnboundLocalError ''message''), lg)
      | Some m \<Rightarrow>
          (let lg' = (if m \<noteq> [] then lg @ [Info m] else lg) in
           case improving_state of
             None \<Rightarrow> (Raised (UnboundLocalError ''improving_state''), lg')
           | Some None \<Rightarrow> (Returned current_state, lg')
           | Some (Some s) \<Rightarrow>
               (if s \<noteq> [] then (Finished s, lg') else (Returned current_state, lg'))))"

text \<open>
  The loop \<open>while True\<close>. It has no bound, so the model counts iterations down from a
  fuel; \<open>None\<close> means that the fuel ran out before the loop ended.
\<close>

fun search_loop ::
  "nat \<Rightarrow> ('e, 't) environment \<Rightarrow> ('t state \<Rightarrow> 't Successor list) \<Rightarrow> string \<Rightarrow> bool
     \<Rightarrow> 't state \<Rightarrow> 't state option option \<Rightarrow> string option \<Rightarrow> 'e \<Rightarrow> log_entry list
     \<Rightarrow> (exn + 't state) option \<times> 'e \<times> log_entry list" where
  "search_loop 0 environment get_successors evaluator_path deterministic
     current_state improving_state message e lg = (None, e, lg)"
| "search_loop (Suc fuel) environment get_successors evaluator_path deterministic
     current_state improving_state message e lg =
     (let e1 = start_new_iteration environment e;
          successors = get_successors current_state
      in case get_improving_successor environment deterministic evaluator_path successors e1 lg of
           (res, e2, lg2) \<Rightarrow>
             (let try_result =
                (case res of
                   Inr (s, m) \<Rightarrow> Inr (Some s, Some m, lg2)
                 | Inl (SubmissionError x) \<Rightarrow>
                     Inr (improving_state, message, lg2 @ [submission_failed x])
                 | Inl (PollingError x) \<Rightarrow>
                     Inr (improving_state, message, lg2 @ [polling_failed x])
                 | Inl ex \<Rightarrow> Inl ex)
              in case try_result of
                   Inl ex \<Rightarrow> (Some (Inl ex), e2, lg2)
                 | Inr (improving_state', message', lg3) \<Rightarrow>
                     (case after_try current_state improving_state' message' lg3 of
                        (Raised ex, lg4) \<Rightarrow> (Some (Inl ex), e2, lg4)
                      | (Returned s, lg4) \<Rightarrow> (Some (Inr s), e2, lg4)
                      | (Finished s, lg4) \<Rightarrow>
                          search_loop fuel environment get_successors evaluator_path
                            deterministic s improving_state' message' e2 lg4)))"

text \<open>
  \<open>search\<close>, with the environment given and the successor generators already made
  into one (\<open>get_successors\<close>). Logging configuration is left out.
\<close>

definition search ::
  "nat \<Rightarrow> ('e, 't) environment \<Rightarrow> 't state \<Rightarrow> ('t state \<Rightarrow> 't Successor list) \<Rightarrow> string
     \<Rightarrow> bool \<Rightarrow> 'e \<Rightarrow> log_entry list \<Rightarrow> (exn + 't state) option \<times> 'e \<times> log_entry list" where
  "search fuel environment initial_state get_successors evaluator_path deterministic e lg =
     (let e0 = start_new_iteration environment e in
      case run environment e0 evaluator_path
             [\<lparr>state = initial_state, change_msg = ''Initial state''\<rparr>] (\<lambda>_. None) of
        (Inl ex, e1) \<Rightarrow> (Some (Inl ex), e1, lg)
      | (Inr tasks, e1) \<Rightarrow>
          (case check_initial deterministic tasks lg of
             (Inl ex, lg1) \<Rightarrow> (Some (Inl ex), e1, lg1)
           | (Inr u, lg1) \<Rightarrow>
               search_loop fuel environment get_successors evaluator_path deterministic
                 initial_state None None e1 (lg1 @ [Info ''Starting search ...''])))"


text \<open>A scripted environment for closed instances.\<close>

definition scripted_task :: "nat \<times> 't Successor \<times> status \<Rightarrow> 't EvaluationTask" where
  "scripted_task x =
     (case x of (i, s, st) \<Rightarrow>
        \<lparr>successor = s, successor_id = i, status = st,
         run_dir = ''run'',
         error_msg = (if st = OUT_OF_RESOURCES \<or> st = CRITICAL then Some ''failed'' else None)\<rparr>)"

definition scripted_environment ::
  "nat \<Rightarrow> (nat \<Rightarrow> exn + status list) \<Rightarrow> (nat, 't) environment" where
  "scripted_environment b script =
     \<lparr>batch_size = b,
      start_new_iteration = (\<lambda>e. e),
      run = (\<lambda>e p batch cb.
               (case script e of
                  Inl ex \<Rightarrow> Inl ex
                | Inr sts \<Rightarrow> Inr (map scripted_task (zip [0..<length batch] (zip batch sts))),
                Suc e))\<rparr>"

definition successor_named :: "string \<Rightarrow> unit Successor" where
  "successor_named n = \<lparr>state = [(n, ())], change_msg = n\<rparr>"

definition three_successors :: "unit Successor list" where
  "three_successors = [successor_named ''s0'', successor_named ''s1'', successor_named ''s2'']"


definition one_state :: "unit state" where
  "one_state = [(''task'', ())]"

text \<open>An environment whose first \<open>n\<close> calls of \<open>run\<close> report the behavior as present
  and whose later calls raise \<open>ex\<close>.\<close>

definition failing_after :: "nat \<Rightarrow> exn \<Rightarrow> (nat, unit) environment" where
  "failing_after n ex =
     scripted_environment 1 (\<lambda>k. if k < n then Inr [DONE_AND_BEHAVIOR_PRESENT] else Inl ex)"


section \<open>sas/files.py\<close>

subsection \<open>Python built-ins on strings and integers\<close>

text \<open>
  Text is modelled over the characters of \<^typ>\<open>char\<close>, read as the code points
  below 256. The built-ins behave as in CPython 3.11. An exception carries its message
  where the message depends on the input (\<open>ValueError\<close>); the fixed messages of
  \<open>StopIteration\<close>, \<open>IndexError\<close> and of an \<open>assert\<close> without a message are left out.
\<close>

text \<open>Sequencing: the first exception raised ends the computation.\<close>

definition bind_exn :: "exn + 'a \<Rightarrow> ('a \<Rightarrow> exn + 'b) \<Rightarrow> exn + 'b" where
  "bind_exn m f = (case m of Inl e \<Rightarrow> Inl e | Inr x \<Rightarrow> f x)"

text \<open>\<open>next(lines)\<close> on the iterator over the remaining lines.\<close>

definition next_line :: "string list \<Rightarrow> exn + string \<times> string list" where
  "next_line ls = (case ls of [] \<Rightarrow> Inl StopIteration | l # ls' \<Rightarrow> Inr (l, ls'))"

text \<open>\<open>assert next(lines) == d\<close>\<close>

definition expect_line :: "string \<Rightarrow> string list \<Rightarrow> exn + string list" where
  "expect_line d ls =
     (case next_line ls of
        Inl e \<Rightarrow> Inl e
      | Inr (l, ls') \<Rightarrow> if l = d then Inr ls' else Inl (AssertionError []))"

text \<open>\<open>str.splitlines()\<close>: the line boundaries below code point 256.\<close>

definition is_linebreak :: "char \<Rightarrow> bool" where
  "is_linebreak c =
     (c \<in> {CHR 0x0A, CHR 0x0B, CHR 0x0C, CHR 0x0D, CHR 0x1C, CHR 0x1D, CHR 0x1E, CHR 0x85})"

fun splitlines_from :: "string \<Rightarrow> string \<Rightarrow> string list" where
  "splitlines_from cur [] = (if cur = [] then [] else [cur])"
| "splitlines_from cur (c # cs) =
     (if c = CHR 0x0D \<and> cs \<noteq> [] \<and> hd cs = CHR 0x0A then cur # splitlines_from [] (tl cs)
      else if is_linebreak c then cur # splitlines_from [] cs
      else splitlines_from (cur @ [c]) cs)"

definition splitlines :: "string \<Rightarrow> string list" where
  "splitlines s = splitlines_from [] s"

text \<open>\<open>s.split(" ")\<close>\<close>

fun split_from :: "char \<Rightarrow> string \<Rightarrow> string \<Rightarrow> string list" where
  "split_from sep cur [] = [cur]"
| "split_from sep cur (c # cs) =
     (if c = sep then cur # split_from sep [] cs else split_from sep (cur @ [c]) cs)"

definition split_space :: "string \<Rightarrow> string list" where
  "split_space s = split_from (CHR '' '') [] s"

definition digit_chars :: string where
  "digit_chars = ''0123456789''"

text \<open>\<open>str(i)\<close> for an integer.\<close>

function digits_of :: "nat \<Rightarrow> string" where
  "digits_of n = (if n < 10 then [digit_chars ! n] else digits_of (n div 10) @ [digit_chars ! (n mod 10)])"
  by pat_completeness auto
termination
  by (relation "measure id") auto

declare digits_of.simps [simp del]

definition py_str :: "int \<Rightarrow> string" where
  "py_str i = (if i < 0 then CHR ''-'' # digits_of (nat (- i)) else digits_of (nat i))"

text \<open>
  \<open>repr(s)\<close> for a string: double quotes when the string has a single quote and no
  double quote, single quotes otherwise; the quote and the backslash are escaped, tab,
  newline and carriage return are written with their letters, and every other code point
  that is not printable (below 32, from 127 to 160, and 173) with two hexadecimal digits.
\<close>

definition backslash :: char where
  "backslash = CHR 0x5C"

definition dq :: char where
  "dq = CHR 0x22"

definition hex_chars :: string where
  "hex_chars = ''0123456789abcdef''"

definition repr_char :: "char \<Rightarrow> char \<Rightarrow> string" where
  "repr_char q c =
     (let n = (of_char c :: nat) in
      if c = q \<or> c = backslash then [backslash, c]
      else if c = CHR 0x09 then [backslash, CHR ''t'']
      else if c = CHR 0x0A then [backslash, CHR ''n'']
      else if c = CHR 0x0D then [backslash, CHR ''r'']
      else if n < 32 \<or> (127 \<le> n \<and> n \<le> 160) \<or> n = 173
      then [backslash, CHR ''x'', hex_chars ! (n div 16), hex_chars ! (n mod 16)]
      else [c])"

definition py_repr :: "string \<Rightarrow> string" where
  "py_repr s =
     (let q = (if CHR 0x27 \<in> set s \<and> dq \<notin> set s then dq else CHR 0x27)
      in [q] @ concat (map (repr_char q) s) @ [q])"

text \<open>
  \<open>int(s)\<close> for a string: the white space that \<open>int\<close> skips around the number (tab,
  the line breaks from 0x0A to 0x0D, space, 0x85 and 0xA0) is stripped, a sign may come
  first, then decimal digits, where single underscores may stand between digits. Any
  other string raises \<open>ValueError\<close>, whose message shows the first 200 characters of
  \<open>repr(s)\<close>.
\<close>

definition is_space :: "char \<Rightarrow> bool" where
  "is_space c =
     (c \<in> {CHR 0x09, CHR 0x0A, CHR 0x0B, CHR 0x0C, CHR 0x0D, CHR '' '', CHR 0x85, CHR 0xA0})"

definition strip :: "string \<Rightarrow> string" where
  "strip s = rev (dropWhile is_space (rev (dropWhile is_space s)))"

definition is_digit :: "char \<Rightarrow> bool" where
  "is_digit c = (c \<in> set digit_chars)"

definition digit_value :: "char \<Rightarrow> nat" where
  "digit_value c = length (takeWhile (\<lambda>d. d \<noteq> c) digit_chars)"

fun parse_digits :: "nat \<Rightarrow> string \<Rightarrow> nat option" where
  "parse_digits acc [] = Some acc"
| "parse_digits acc (c # cs) =
     (if is_digit c then parse_digits (10 * acc + digit_value c) cs
      else if c = CHR ''_'' \<and> cs \<noteq> [] \<and> is_digit (hd cs) then parse_digits acc cs
      else None)"

definition invalid_literal :: "string \<Rightarrow> exn" where
  "invalid_literal s =
     ValueError (''invalid literal for int() with base 10: '' @ take 200 (py_repr s))"

definition py_int :: "string \<Rightarrow> exn + int" where
  "py_int s =
     (let t = strip s;
          negative = (t \<noteq> [] \<and> hd t = CHR ''-'');
          body = (if t \<noteq> [] \<and> (hd t = CHR ''-'' \<or> hd t = CHR ''+'') then tl t else t)
      in if body \<noteq> [] \<and> is_digit (hd body)
         then (case parse_digits 0 body of
                 None \<Rightarrow> Inl (invalid_literal s)
               | Some n \<Rightarrow> Inr (if negative then - int n else int n))
         else Inl (invalid_literal s))"

text \<open>\<open>xs[i]\<close> for an index that is not negative.\<close>

definition py_index :: "'a list \<Rightarrow> nat \<Rightarrow> exn + 'a" where
  "py_index xs i = (if i < length xs then Inr (xs ! i) else Inl IndexError)"

text \<open>\<open>int(next(lines))\<close>\<close>

definition int_line :: "string list \<Rightarrow> exn + int \<times> string list" where
  "int_line ls =
     (case next_line ls of
        Inl e \<Rightarrow> Inl e
      | Inr (l, ls') \<Rightarrow> (case py_int l of Inl e \<Rightarrow> Inl e | Inr i \<Rightarrow> Inr (i, ls')))"

text \<open>\<open>list(map(int, s.split(" ")))\<close>: the first field that is no integer raises.\<close>

fun map_int :: "string list \<Rightarrow> exn + int list" where
  "map_int [] = Inr []"
| "map_int (x # xs) =
     (case py_int x of
        Inl e \<Rightarrow> Inl e
      | Inr i \<Rightarrow> (case map_int xs of Inl e \<Rightarrow> Inl e | Inr is \<Rightarrow> Inr (i # is)))"

definition int_list_line :: "string list \<Rightarrow> exn + int list \<times> string list" where
  "int_list_line ls =
     (case next_line ls of
        Inl e \<Rightarrow> Inl e
      | Inr (l, ls') \<Rightarrow>
          (case map_int (split_space l) of Inl e \<Rightarrow> Inl e | Inr is \<Rightarrow> Inr (is, ls')))"

text \<open>
  \<open>var, val = map(int, next(lines).split(" "))\<close>: unpacking draws the fields from
  the \<open>map\<close> object one by one, converting each as it is drawn: the first, the second,
  and a third one to see that there is none. A field that is no integer raises the
  \<open>ValueError\<close> of \<open>int\<close>; a missing second field or a third field raises the
  \<open>ValueError\<close> of unpacking.
\<close>

definition not_enough_values :: "nat \<Rightarrow> nat \<Rightarrow> exn" where
  "not_enough_values expected got =
     ValueError (''not enough values to unpack (expected '' @ py_str (int expected)
                 @ '', got '' @ py_str (int got) @ '')'')"

definition too_many_values :: "nat \<Rightarrow> exn" where
  "too_many_values expected =
     ValueError (''too many values to unpack (expected '' @ py_str (int expected) @ '')'')"

definition unpack_pair :: "string list \<Rightarrow> exn + int \<times> int" where
  "unpack_pair fs =
     (case fs of
        [] \<Rightarrow> Inl (not_enough_values 2 0)
      | a # rest \<Rightarrow>
          bind_exn (py_int a) (\<lambda>var.
          case rest of
            [] \<Rightarrow> Inl (not_enough_values 2 1)
          | b # rest2 \<Rightarrow>
              bind_exn (py_int b) (\<lambda>val.
              case rest2 of
                [] \<Rightarrow> Inr (var, val)
              | c # others \<Rightarrow> bind_exn (py_int c) (\<lambda>third. Inl (too_many_values 2)))))"

definition pair_line :: "string list \<Rightarrow> exn + (int \<times> int) \<times> string list" where
  "pair_line ls =
     bind_exn (next_line ls) (\<lambda>(l, ls').
     bind_exn (unpack_pair (split_space l)) (\<lambda>p. Inr (p, ls')))"

text \<open>
  A loop \<open>for _ in range(n)\<close> whose body reads one item from the lines and appends it
  to a list.
\<close>

fun read_n ::
  "nat \<Rightarrow> (string list \<Rightarrow> exn + 'a \<times> string list) \<Rightarrow> string list \<Rightarrow> exn + 'a list \<times> string list" where
  "read_n 0 f ls = Inr ([], ls)"
| "read_n (Suc n) f ls =
     (case f ls of
        Inl e \<Rightarrow> Inl e
      | Inr (x, ls') \<Rightarrow>
          (case read_n n f ls' of Inl e \<Rightarrow> Inl e | Inr (xs, ls'') \<Rightarrow> Inr (x # xs, ls'')))"

subsection \<open>The task\<close>

text \<open>
  The classes of \<open>sas_tasks\<close>, by the arguments that files.py constructs them from.
  A mutex group, the initial state and the goal hold one list each.
\<close>

record SASVariables =
  ranges :: "int list"
  axiom_layers :: "int list"
  value_names :: "string list list"

record SASOperator =
  name :: string
  prevail :: "(int \<times> int) list"
  pre_post :: "(int \<times> int \<times> int \<times> (int \<times> int) list) list"
  cost :: int

record SASAxiom =
  condition :: "(int \<times> int) list"
  effect :: "int \<times> int"

record SASTask =
  variables :: SASVariables
  mutexes :: "(int \<times> int) list list"
  init :: "int list"
  goal :: "(int \<times> int) list"
  operators :: "SASOperator list"
  axioms :: "SASAxiom list"
  metric :: bool

subsection \<open>The reader\<close>

text \<open>One pass of the loop body of \<open>_read_variables\<close>.\<close>

definition read_variable :: "string list \<Rightarrow> exn + (int \<times> int \<times> string list) \<times> string list" where
  "read_variable ls =
     (bind_exn (expect_line ''begin_variable'' ls) (\<lambda>ls1.
      bind_exn (next_line ls1) (\<lambda>(var_name, ls2).
      bind_exn (int_line ls2) (\<lambda>(axiom_layer, ls3).
      bind_exn (int_line ls3) (\<lambda>(num_values, ls4).
      bind_exn (read_n (nat num_values) next_line ls4) (\<lambda>(names, ls5).
      bind_exn (expect_line ''end_variable'' ls5) (\<lambda>ls6.
      Inr ((axiom_layer, num_values, names), ls6))))))))"

definition read_variables :: "string list \<Rightarrow> int \<Rightarrow> exn + SASVariables \<times> string list" where
  "read_variables ls num_vars =
     (case read_n (nat num_vars) read_variable ls of
        Inl e \<Rightarrow> Inl e
      | Inr (vs, ls') \<Rightarrow>
          Inr (\<lparr>ranges = map (\<lambda>(layer, num_values, names). num_values) vs,
                axiom_layers = map (\<lambda>(layer, num_values, names). layer) vs,
                value_names = map (\<lambda>(layer, num_values, names). names) vs\<rparr>, ls'))"

definition read_mutex :: "string list \<Rightarrow> exn + (int \<times> int) list \<times> string list" where
  "read_mutex ls =
     (bind_exn (expect_line ''begin_mutex_group'' ls) (\<lambda>ls1.
      bind_exn (int_line ls1) (\<lambda>(num_facts, ls2).
      bind_exn (read_n (nat num_facts) pair_line ls2) (\<lambda>(facts, ls3).
      bind_exn (expect_line ''end_mutex_group'' ls3) (\<lambda>ls4.
      Inr (facts, ls4))))))"

definition read_mutexes :: "string list \<Rightarrow> int \<Rightarrow> exn + (int \<times> int) list list \<times> string list" where
  "read_mutexes ls num_mutexes = read_n (nat num_mutexes) read_mutex ls"

definition read_init_state :: "string list \<Rightarrow> int \<Rightarrow> exn + int list \<times> string list" where
  "read_init_state ls num_vars =
     (bind_exn (expect_line ''begin_state'' ls) (\<lambda>ls1.
      bind_exn (read_n (nat num_vars) int_line ls1) (\<lambda>(vals, ls2).
      bind_exn (expect_line ''end_state'' ls2) (\<lambda>ls3.
      Inr (vals, ls3)))))"

definition read_goal :: "string list \<Rightarrow> exn + (int \<times> int) list \<times> string list" where
  "read_goal ls =
     (bind_exn (expect_line ''begin_goal'' ls) (\<lambda>ls1.
      bind_exn (int_line ls1) (\<lambda>(num_pairs, ls2).
      bind_exn (read_n (nat num_pairs) pair_line ls2) (\<lambda>(pairs, ls3).
      bind_exn (expect_line ''end_goal'' ls3) (\<lambda>ls4.
      Inr (pairs, ls4))))))"

text \<open>
  The loop \<open>for cond_num in range(1, 2 * num_effect_conditions, 2)\<close> over an effect
  line, given the list of the values of \<open>cond_num\<close>.
\<close>

fun read_conds :: "int list \<Rightarrow> nat list \<Rightarrow> exn + (int \<times> int) list" where
  "read_conds effect_line [] = Inr []"
| "read_conds effect_line (cond_num # rest) =
     (bind_exn (py_index effect_line cond_num) (\<lambda>var.
      bind_exn (py_index effect_line (cond_num + 1)) (\<lambda>val.
      bind_exn (read_conds effect_line rest) (\<lambda>cond.
      Inr ((var, val) # cond)))))"

definition read_effect ::
  "string list \<Rightarrow> exn + (int \<times> int \<times> int \<times> (int \<times> int) list) \<times> string list" where
  "read_effect ls =
     (bind_exn (int_list_line ls) (\<lambda>(effect_line, ls1).
      bind_exn (py_index effect_line 0) (\<lambda>num_effect_conditions.
      bind_exn (read_conds effect_line
                  (map (\<lambda>k. 2 * k + 1) [0..<nat num_effect_conditions])) (\<lambda>cond.
      case drop (length effect_line - 3) effect_line of
        [var, pre, post] \<Rightarrow> Inr ((var, pre, post, cond), ls1)
      | last_three \<Rightarrow> Inl (not_enough_values 3 (length last_three))))))"

definition read_operator :: "string list \<Rightarrow> exn + SASOperator \<times> string list" where
  "read_operator ls =
     (bind_exn (expect_line ''begin_operator'' ls) (\<lambda>ls1.
      bind_exn (next_line ls1) (\<lambda>(l, ls2).
      bind_exn (int_line ls2) (\<lambda>(num_prevail_conditions, ls3).
      bind_exn (read_n (nat num_prevail_conditions) pair_line ls3) (\<lambda>(prevail_conditions, ls4).
      bind_exn (int_line ls4) (\<lambda>(num_effects, ls5).
      bind_exn (read_n (nat num_effects) read_effect ls5) (\<lambda>(effects, ls6).
      bind_exn (int_line ls6) (\<lambda>(c, ls7).
      bind_exn (expect_line ''end_operator'' ls7) (\<lambda>ls8.
      Inr (\<lparr>name = ''('' @ l @ '')'', prevail = prevail_conditions,
            pre_post = effects, cost = c\<rparr>, ls8))))))))))"

definition read_operators :: "string list \<Rightarrow> int \<Rightarrow> exn + SASOperator list \<times> string list" where
  "read_operators ls num_operators = read_n (nat num_operators) read_operator ls"

definition read_axiom :: "string list \<Rightarrow> exn + SASAxiom \<times> string list" where
  "read_axiom ls =
     (bind_exn (expect_line ''begin_rule'' ls) (\<lambda>ls1.
      bind_exn (int_line ls1) (\<lambda>(length_body, ls2).
      bind_exn (read_n (nat length_body) pair_line ls2) (\<lambda>(cond, ls3).
      bind_exn (int_list_line ls3) (\<lambda>(effect_line, ls4).
      bind_exn (py_index effect_line 0) (\<lambda>var.
      bind_exn (py_index effect_line 2) (\<lambda>val.
      bind_exn (py_index effect_line 1) (\<lambda>old.
      if 1 - val \<noteq> old then Inl (AssertionError []) else
      bind_exn (expect_line ''end_rule'' ls4) (\<lambda>ls5.
      Inr (\<lparr>condition = cond, effect = (var, val)\<rparr>, ls5))))))))))"

definition read_axioms :: "string list \<Rightarrow> int \<Rightarrow> exn + SASAxiom list \<times> string list" where
  "read_axioms ls num_axioms = read_n (nat num_axioms) read_axiom ls"

text \<open>The loop \<open>while True\<close> that skips to the line \<open>begin_metric\<close>.\<close>

fun skip_to_metric :: "string list \<Rightarrow> exn + string list" where
  "skip_to_metric [] = Inl StopIteration"
| "skip_to_metric (line # ls) = (if line = ''begin_metric'' then Inr ls else skip_to_metric ls)"

text \<open>
  \<open>_read_task\<close> on the lines of the file, up to the construction of the task. The
  metric is \<open>bool\<close> of the line, a string: true exactly when the line is not empty.
\<close>

definition parse_task :: "string list \<Rightarrow> exn + SASTask" where
  "parse_task lines =
     (bind_exn (skip_to_metric lines) (\<lambda>ls0.
      bind_exn (next_line ls0) (\<lambda>(metric_line, ls1).
      bind_exn (expect_line ''end_metric'' ls1) (\<lambda>ls2.
      bind_exn (int_line ls2) (\<lambda>(num_vars, ls3).
      bind_exn (read_variables ls3 num_vars) (\<lambda>(vars, ls4).
      bind_exn (int_line ls4) (\<lambda>(num_mutexes, ls5).
      bind_exn (read_mutexes ls5 num_mutexes) (\<lambda>(ms, ls6).
      bind_exn (read_init_state ls6 num_vars) (\<lambda>(i, ls7).
      bind_exn (read_goal ls7) (\<lambda>(g, ls8).
      bind_exn (int_line ls8) (\<lambda>(num_operators, ls9).
      bind_exn (read_operators ls9 num_operators) (\<lambda>(ops, ls10).
      bind_exn (int_line ls10) (\<lambda>(num_axioms, ls11).
      bind_exn (read_axioms ls11 num_axioms) (\<lambda>(axs, ls12).
      Inr \<lparr>variables = vars, mutexes = ms, init = i, goal = g, operators = ops,
           axioms = axs, metric = (metric_line \<noteq> [])\<rparr>))))))))))))))"

text \<open>
  \<open>_read_task\<close> on the text of the file. \<open>SASTask.validate\<close> is outside files.py; it
  is a parameter that gives the exception it raises, if any.
\<close>

definition read_task :: "(SASTask \<Rightarrow> exn option) \<Rightarrow> string \<Rightarrow> exn + SASTask" where
  "read_task validate text =
     (case parse_task (splitlines text) of
        Inl e \<Rightarrow> Inl e
      | Inr sas_task \<Rightarrow> (case validate sas_task of Some e \<Rightarrow> Inl e | None \<Rightarrow> Inr sas_task))"

subsection \<open>The writer\<close>

text \<open>
  Modelled from the spec: \<open>SASTask.output\<close> (module \<open>sas_tasks\<close>) is not part of the
  sources at hand. It writes the grounded-task file format of the specification: each
  section between its delimiter lines, counts before repeated sections, the metric as
  \<open>0\<close> or \<open>1\<close>, operator names without their parentheses, and axiom effect lines with
  the variable, the old value \<open>1 - new\<close> and the new value. The line of a variable's
  name, which the reader skips, is \<open>var\<close> followed by the variable's index.
\<close>

definition pair_text :: "int \<times> int \<Rightarrow> string" where
  "pair_text p = py_str (fst p) @ '' '' @ py_str (snd p)"

definition output_variable :: "nat \<times> int \<times> int \<times> string list \<Rightarrow> string list" where
  "output_variable v =
     (case v of (i, range_size, layer, names) \<Rightarrow>
        [''begin_variable'', ''var'' @ py_str (int i), py_str layer, py_str range_size]
        @ names @ [''end_variable''])"

definition output_mutex :: "(int \<times> int) list \<Rightarrow> string list" where
  "output_mutex facts =
     [''begin_mutex_group'', py_str (int (length facts))] @ map pair_text facts
     @ [''end_mutex_group'']"

definition effect_text :: "int \<times> int \<times> int \<times> (int \<times> int) list \<Rightarrow> string" where
  "effect_text eff =
     (case eff of (var, pre, post, cond) \<Rightarrow>
        join '' '' (py_str (int (length cond)) # map pair_text cond
                    @ [py_str var, py_str pre, py_str post]))"

definition output_operator :: "SASOperator \<Rightarrow> string list" where
  "output_operator op =
     [''begin_operator'', butlast (tl (name op)), py_str (int (length (prevail op)))]
     @ map pair_text (prevail op)
     @ [py_str (int (length (pre_post op)))]
     @ map effect_text (pre_post op)
     @ [py_str (cost op), ''end_operator'']"

definition output_axiom :: "SASAxiom \<Rightarrow> string list" where
  "output_axiom ax =
     [''begin_rule'', py_str (int (length (condition ax)))]
     @ map pair_text (condition ax)
     @ [join '' '' [py_str (fst (effect ax)), py_str (1 - snd (effect ax)),
                    py_str (snd (effect ax))],
        ''end_rule'']"

definition output_lines :: "SASTask \<Rightarrow> string list" where
  "output_lines t =
     [''begin_metric'', (if metric t then ''1'' else ''0''), ''end_metric'',
      py_str (int (length (ranges (variables t))))]
     @ concat (map output_variable
                 (zip [0..<length (ranges (variables t))]
                    (zip (ranges (variables t))
                       (zip (axiom_layers (variables t)) (value_names (variables t))))))
     @ [py_str (int (length (mutexes t)))]
     @ concat (map output_mutex (mutexes t))
     @ [''begin_state''] @ map py_str (init t) @ [''end_state'']
     @ [''begin_goal'', py_str (int (length (goal t)))] @ map pair_text (goal t) @ [''end_goal'']
     @ [py_str (int (length (operators t)))]
     @ concat (map output_operator (operators t))
     @ [py_str (int (length (axioms t)))]
     @ concat (map output_axiom (axioms t))"

definition output_task :: "SASTask \<Rightarrow> string" where
  "output_task t = concat (map (\<lambda>l. l @ nl) (output_lines t))"

subsection \<open>\<open>renamed_sas\<close>\<close>

definition alphabet :: string where
  "alphabet = ''abcdefghijklmnopqrstuvwxyz''"

text \<open>\<open>c.upper()\<close>, for the letters of the alphabet.\<close>

definition upper :: "char \<Rightarrow> char" where
  "upper c =
     (case map_of (zip alphabet ''ABCDEFGHIJKLMNOPQRSTUVWXYZ'') c of
        Some u \<Rightarrow> u
      | None \<Rightarrow> c)"

text \<open>
  The loop \<open>for j in range(size)\<close> for variable \<open>i\<close>, over the values of \<open>j\<close>. The
  lists of value names are taken to be distinct objects, as \<open>_read_variables\<close> builds
  them, so that an assignment changes the names of one variable only.
\<close>

fun rename_values :: "nat \<Rightarrow> nat list \<Rightarrow> string list list \<Rightarrow> exn + string list list" where
  "rename_values i [] vn = Inr vn"
| "rename_values i (j # js) vn =
     (case py_index alphabet j of
        Inl e \<Rightarrow> Inl e
      | Inr letter \<Rightarrow>
          (case py_index vn i of
             Inl e \<Rightarrow> Inl e
           | Inr names \<Rightarrow>
               if j < length names
               then rename_values i js (vn[i := names[j := upper letter # py_str (int i)]])
               else Inl IndexError))"

text \<open>The loop \<open>for i, size in enumerate(new_task.variables.ranges)\<close>.\<close>

fun rename_variables :: "(nat \<times> int) list \<Rightarrow> string list list \<Rightarrow> exn + string list list" where
  "rename_variables [] vn = Inr vn"
| "rename_variables ((i, range_size) # rest) vn =
     (case rename_values i [0..<nat range_size] vn of
        Inl e \<Rightarrow> Inl e
      | Inr vn' \<Rightarrow> rename_variables rest vn')"

text \<open>The loop \<open>for i in range(len(sas_task.operators))\<close>.\<close>

fun rename_operators :: "nat list \<Rightarrow> SASOperator list \<Rightarrow> exn + SASOperator list" where
  "rename_operators [] ops = Inr ops"
| "rename_operators (i # rest) ops =
     (case py_index alphabet i of
        Inl e \<Rightarrow> Inl e
      | Inr letter \<Rightarrow>
          (case py_index ops i of
             Inl e \<Rightarrow> Inl e
           | Inr op \<Rightarrow> rename_operators rest (ops[i := op\<lparr>name := ''('' @ [letter] @ '')''\<rparr>])))"

definition renamed_sas :: "SASTask \<Rightarrow> exn + SASTask" where
  "renamed_sas sas_task =
     (case rename_variables
             (zip [0..<length (ranges (variables sas_task))] (ranges (variables sas_task)))
             (value_names (variables sas_task)) of
        Inl e \<Rightarrow> Inl e
      | Inr vn \<Rightarrow>
          (case rename_operators [0..<length (operators sas_task)] (operators sas_task) of
             Inl e \<Rightarrow> Inl e
           | Inr ops \<Rightarrow>
               Inr (sas_task\<lparr>variables := (variables sas_task)\<lparr>value_names := vn\<rparr>,
                              operators := ops\<rparr>)))"

text \<open>
  The minimal task of the specification's scenarios (one binary variable, one
  operator, no mutex group, no axiom), with the metric flag as a parameter.
\<close>

definition minimal_task :: "bool \<Rightarrow> SASTask" where
  "minimal_task m =
     \<lparr>variables = \<lparr>ranges = [2], axiom_layers = [-1], value_names = [[''a'', ''b'']]\<rparr>,
      mutexes = [],
      init = [0],
      goal = [(0, 1)],
      operators = [\<lparr>name = ''(op)'', prevail = [], pre_post = [(0, 0, 1, [])], cost = 1\<rparr>],
      axioms = [],
      metric = m\<rparr>"

text \<open>
  The exceptions that the reader raises: the end of the lines, a failed \<open>assert\<close>, an
  index out of range, the \<open>ValueError\<close> of \<open>int\<close> on some string, and the
  \<open>ValueError\<close> of unpacking into two or three targets.
\<close>

definition reader_errors :: "exn set" where
  "reader_errors =
     {StopIteration, AssertionError [], IndexError, too_many_values 2}
     \<union> range invalid_literal \<union> range (not_enough_values 2) \<union> range (not_enough_values 3)"





text \<open>The names that \<open>renamed_sas\<close> assigns, and a task with \<open>n\<close> operators.\<close>

definition new_value_name :: "nat \<Rightarrow> nat \<Rightarrow> string" where
  "new_value_name i j = upper (alphabet ! j) # py_str (int i)"

definition new_operator_name :: "nat \<Rightarrow> string" where
  "new_operator_name i = ''('' @ [alphabet ! i] @ '')''"

definition many_operators :: "nat \<Rightarrow> SASTask" where
  "many_operators n =
     (minimal_task True)
       \<lparr>operators := replicate n \<lparr>name = ''(op)'', prevail = [], pre_post = [], cost = 1\<rparr>\<rparr>"


section \<open>The evaluator entry points of sas/files.py and pddl/files.py\<close>

text \<open>
  The process state that the entry points act on: the paths that exist in the file
  system, and the log.
\<close>

record world =
  files :: "string set"
  logged :: "log_entry list"

text \<open>
  Modelled from the spec: the exit codes of \<open>machetli.evaluator\<close>, which is not part of
  the sources at hand: 30 for behavior present (improving), 31 for behavior not present
  (not improving), 32 for a critical error.
\<close>

definition EXIT_CODE_BEHAVIOR_PRESENT :: int where
  "EXIT_CODE_BEHAVIOR_PRESENT = 30"

definition EXIT_CODE_BEHAVIOR_NOT_PRESENT :: int where
  "EXIT_CODE_BEHAVIOR_NOT_PRESENT = 31"

definition EXIT_CODE_IMPROVING :: int where
  "EXIT_CODE_IMPROVING = 30"

definition EXIT_CODE_NOT_IMPROVING :: int where
  "EXIT_CODE_NOT_IMPROVING = 31"

definition EXIT_CODE_CRITICAL :: int where
  "EXIT_CODE_CRITICAL = 32"

subsection \<open>sas/files.py\<close>

text \<open>
  \<open>temporary_file\<close> as the \<open>with\<close> statement runs it. The generator creates the
  file (\<open>mktemp\<close> stands for the name that \<open>NamedTemporaryFile\<close> picks), writes the
  task into it (\<open>write_task\<close> stands for \<open>state[KEY_IN_STATE].output(f)\<close>, which is
  outside files.py: it gives the exception it raises, if any) and yields the name to the
  body. When the body ends normally the generator is resumed and removes the file. When
  the body raises, the exception is thrown into the generator at its \<open>yield\<close>, which
  stands in no \<open>try\<close> statement: the exception leaves the generator, and the code after
  the \<open>yield\<close> is not run.
\<close>

definition temporary_file ::
  "(string set \<Rightarrow> string \<Rightarrow> string) \<Rightarrow> (string \<Rightarrow> exn option)
     \<Rightarrow> (string \<Rightarrow> world \<Rightarrow> (exn + 'a) \<times> world) \<Rightarrow> world \<Rightarrow> (exn + 'a) \<times> world" where
  "temporary_file mktemp write_task body w =
     (let f_name = mktemp (files w) ''.sas'';
          w1 = w\<lparr>files := insert f_name (files w)\<rparr>
      in case write_task f_name of
           Some e \<Rightarrow> (Inl e, w1)
         | None \<Rightarrow>
             (case body f_name w1 of
                (Inl e, w2) \<Rightarrow> (Inl e, w2)
              | (Inr v, w2) \<Rightarrow>
                  if f_name \<in> files w2 then (Inr v, w2\<lparr>files := files w2 - {f_name}\<rparr>)
                  else (Inl FileNotFoundError, w2)))"

text \<open>
  \<open>_run_evaluator_on_sas_file\<close>: the user's function \<open>evaluate\<close> may act on the world
  and raise; its result is read as a truth value. The function always raises.
\<close>

definition run_evaluator_on_sas_file ::
  "(string \<Rightarrow> world \<Rightarrow> (exn + bool) \<times> world) \<Rightarrow> string \<Rightarrow> world \<Rightarrow> (exn + unit) \<times> world" where
  "run_evaluator_on_sas_file evaluate sas_filename w =
     (case evaluate sas_filename w of
        (Inl e, w') \<Rightarrow> (Inl e, w')
      | (Inr b, w') \<Rightarrow>
          (Inl (SystemExit (if b then EXIT_CODE_BEHAVIOR_PRESENT
                            else EXIT_CODE_BEHAVIOR_NOT_PRESENT)), w'))"

text \<open>
  \<open>run_evaluator\<close> of sas/files.py. \<open>tools.read_state\<close> is a parameter that raises or
  gives the state, \<open>write_state\<close> the writing of a state's task into a file.
\<close>

definition sas_run_evaluator ::
  "(string set \<Rightarrow> string \<Rightarrow> string) \<Rightarrow> (string \<Rightarrow> exn + 's) \<Rightarrow> ('s \<Rightarrow> string \<Rightarrow> exn option)
     \<Rightarrow> (string \<Rightarrow> world \<Rightarrow> (exn + bool) \<times> world) \<Rightarrow> string list \<Rightarrow> world
     \<Rightarrow> (exn + unit) \<times> world" where
  "sas_run_evaluator mktemp read_state write_state evaluate argv w =
     (if length argv = 2
      then (let filename = argv ! 1;
                tried = (case read_state filename of
                           Inl e \<Rightarrow> (Inl e, w)
                         | Inr st \<Rightarrow>
                             temporary_file mktemp (write_state st)
                               (\<lambda>sas_filename. run_evaluator_on_sas_file evaluate sas_filename) w)
            in case tried of
                 (Inl e, w') \<Rightarrow>
                   if e = FileNotFoundError \<or> e = PickleError
                   then run_evaluator_on_sas_file evaluate filename w'
                   else (Inl e, w')
               | (Inr u, w') \<Rightarrow> (Inr u, w'))
      else (Inl (SystemExit EXIT_CODE_CRITICAL),
            w\<lparr>logged := logged w @
                 [Critical (''Error: evaluator has to be called with either a path to a pickled ''
                            @ ''state, or a path to a SAS^+ file.'')]\<rparr>))"

subsection \<open>pddl/files.py\<close>

text \<open>\<open>os.path.split\<close>, \<open>os.path.splitext\<close> and \<open>os.path.join\<close> of \<open>posixpath\<close>.\<close>

definition os_path_split :: "string \<Rightarrow> string \<times> string" where
  "os_path_split p =
     (let tail = rev (takeWhile (\<lambda>c. c \<noteq> CHR ''/'') (rev p));
          head = take (length p - length tail) p
      in (if head \<noteq> [] \<and> (\<exists>c\<in>set head. c \<noteq> CHR ''/'')
          then rev (dropWhile (\<lambda>c. c = CHR ''/'') (rev head))
          else head,
          tail))"

definition os_path_splitext :: "string \<Rightarrow> string \<times> string" where
  "os_path_splitext p =
     (let filename = rev (takeWhile (\<lambda>c. c \<noteq> CHR ''/'') (rev p)) in
      if CHR ''.'' \<in> set filename
      then (let ext = CHR ''.'' # rev (takeWhile (\<lambda>c. c \<noteq> CHR ''.'') (rev filename));
                stem = take (length filename - length ext) filename
            in if \<exists>c\<in>set stem. c \<noteq> CHR ''.''
               then (take (length p - length ext) p, ext)
               else (p, []))
      else (p, []))"

definition os_path_join :: "string \<Rightarrow> string \<Rightarrow> string" where
  "os_path_join a b =
     (if b \<noteq> [] \<and> hd b = CHR ''/'' then b
      else if a = [] \<or> last a = CHR ''/'' then a @ b
      else a @ ''/'' @ b)"

text \<open>\<open>_find_domain_filename\<close>: the list of candidates, the loop, the function.\<close>

definition domain_basenames :: "string \<Rightarrow> string list" where
  "domain_basenames basename =
     (case os_path_splitext basename of
        (basename_root, ext) \<Rightarrow>
          [''domain.pddl'',
           basename_root @ ''-domain'' @ ext,
           take 3 basename @ ''-domain.pddl'',
           ''domain_'' @ basename,
           ''domain-'' @ basename])"

fun first_existing :: "string set \<Rightarrow> string \<Rightarrow> string list \<Rightarrow> string option" where
  "first_existing fs dirname [] = None"
| "first_existing fs dirname (domain_basename # rest) =
     (let domain_filename = os_path_join dirname domain_basename
      in if domain_filename \<in> fs then Some domain_filename
         else first_existing fs dirname rest)"

definition find_domain_filename :: "string \<Rightarrow> world \<Rightarrow> string option \<times> world" where
  "find_domain_filename task_filename w =
     (case os_path_split task_filename of
        (dirname, basename) \<Rightarrow>
          (case first_existing (files w) dirname (domain_basenames basename) of
             Some domain_filename \<Rightarrow> (Some domain_filename, w)
           | None \<Rightarrow>
               (None,
                w\<lparr>logged := logged w @
                     [Critical (''Error: Could not find domain file using automatic ''
                                @ ''naming rules.'')]\<rparr>)))"

text \<open>
  \<open>temporary_files\<close>, read as \<open>temporary_file\<close> above. \<open>write_task\<close> stands for
  \<open>write_files\<close> on the state and the two names: it gives the exception it raises, if
  any.
\<close>

definition temporary_files ::
  "(string set \<Rightarrow> string \<Rightarrow> string) \<Rightarrow> (string \<Rightarrow> string \<Rightarrow> exn option)
     \<Rightarrow> (string \<times> string \<Rightarrow> world \<Rightarrow> (exn + 'a) \<times> world) \<Rightarrow> world \<Rightarrow> (exn + 'a) \<times> world" where
  "temporary_files mktemp write_task body w =
     (let domain_name = mktemp (files w) ''.pddl'';
          w1 = w\<lparr>files := insert domain_name (files w)\<rparr>;
          problem_name = mktemp (files w1) ''.pddl'';
          w2 = w1\<lparr>files := insert problem_name (files w1)\<rparr>
      in case write_task domain_name problem_name of
           Some e \<Rightarrow> (Inl e, w2)
         | None \<Rightarrow>
             (case body (domain_name, problem_name) w2 of
                (Inl e, w3) \<Rightarrow> (Inl e, w3)
              | (Inr v, w3) \<Rightarrow>
                  if domain_name \<notin> files w3 then (Inl FileNotFoundError, w3)
                  else if problem_name \<notin> files w3 - {domain_name}
                  then (Inl FileNotFoundError, w3\<lparr>files := files w3 - {domain_name}\<rparr>)
                  else (Inr v, w3\<lparr>files := files w3 - {domain_name} - {problem_name}\<rparr>)))"

text \<open>
  \<open>_run_evaluator_on_pddl_files\<close>. The domain file name is \<open>None\<close> when
  \<open>_find_domain_filename\<close> found no candidate.
\<close>

definition run_evaluator_on_pddl_files ::
  "(string option \<Rightarrow> string \<Rightarrow> world \<Rightarrow> (exn + bool) \<times> world) \<Rightarrow> string option \<Rightarrow> string
     \<Rightarrow> world \<Rightarrow> (exn + unit) \<times> world" where
  "run_evaluator_on_pddl_files evaluate domain_filename task_filename w =
     (case evaluate domain_filename task_filename w of
        (Inl e, w') \<Rightarrow> (Inl e, w')
      | (Inr b, w') \<Rightarrow>
          (Inl (SystemExit (if b then EXIT_CODE_IMPROVING else EXIT_CODE_NOT_IMPROVING)), w'))"

text \<open>\<open>run_evaluator\<close> of pddl/files.py, with the parameters of the one above.\<close>

definition pddl_run_evaluator ::
  "(string set \<Rightarrow> string \<Rightarrow> string) \<Rightarrow> (string \<Rightarrow> exn + 's)
     \<Rightarrow> ('s \<Rightarrow> string \<Rightarrow> string \<Rightarrow> exn option)
     \<Rightarrow> (string option \<Rightarrow> string \<Rightarrow> world \<Rightarrow> (exn + bool) \<times> world) \<Rightarrow> string list \<Rightarrow> world
     \<Rightarrow> (exn + unit) \<times> world" where
  "pddl_run_evaluator mktemp read_state write_state evaluate argv w =
     (let filenames = tl argv in
      if length filenames = 1
      then (let tried = (case read_state (filenames ! 0) of
                           Inl e \<Rightarrow> (Inl e, w)
                         | Inr st \<Rightarrow>
                             temporary_files mktemp (write_state st)
                               (\<lambda>(domain_filename, task_filename).
                                  run_evaluator_on_pddl_files evaluate
                                    (Some domain_filename) task_filename) w)
            in case tried of
                 (Inl e, w') \<Rightarrow>
                   if e = FileNotFoundError \<or> e = PickleError
                   then (let task_filename = filenames ! 0 in
                         case find_domain_filename task_filename w' of
                           (domain_filename, w'') \<Rightarrow>
                             run_evaluator_on_pddl_files evaluate domain_filename
                               task_filename w'')
                   else (Inl e, w')
               | (Inr u, w') \<Rightarrow> (Inr u, w'))
      else if length filenames = 2
      then run_evaluator_on_pddl_files evaluate (Some (filenames ! 0)) (filenames ! 1) w
      else (Inl (SystemExit EXIT_CODE_CRITICAL),
            w\<lparr>logged := logged w @
                 [Critical (''Error: evaluator has to be called with either a path to a pickled ''
                            @ ''state, a task filename, or a domain filename followed by a task ''
                            @ ''filename.'')]\<rparr>))"

text \<open>
  Fixtures: a name generator for temporary files, evaluators with a fixed answer, a
  state file that loads or does not, and writing that succeeds.
\<close>

definition tmp_name :: "string set \<Rightarrow> string \<Rightarrow> string" where
  "tmp_name fs suffix = (if ''/tmp/tmp0'' @ suffix \<in> fs then ''/tmp/tmp1'' @ suffix
                         else ''/tmp/tmp0'' @ suffix)"

definition answers :: "bool \<Rightarrow> string \<Rightarrow> world \<Rightarrow> (exn + bool) \<times> world" where
  "answers b f w = (Inr b, w)"

definition pddl_answers :: "bool \<Rightarrow> string option \<Rightarrow> string \<Rightarrow> world \<Rightarrow> (exn + bool) \<times> world" where
  "pddl_answers b d f w = (Inr b, w)"

definition loads :: "string \<Rightarrow> exn + unit" where
  "loads f = Inr ()"

definition writes :: "unit \<Rightarrow> string \<Rightarrow> exn option" where
  "writes st f = None"

definition writes_both :: "unit \<Rightarrow> string \<Rightarrow> string \<Rightarrow> exn option" where
  "writes_both st d p = None"

definition not_a_state :: "string \<Rightarrow> exn + unit" where
  "not_a_state f = Inl PickleError"


lemma for_tasks_not_present_prefix:
  "\<forall>x\<in>set pre. status x = DONE_AND_BEHAVIOR_NOT_PRESENT \<Longrightarrow>
     for_tasks d (pre @ ts) oor lg = for_tasks d ts oor lg"
  by (induction pre) simp_all

lemma for_tasks_eager_prefix:
  "\<forall>x\<in>set pre. status x \<in> {DONE_AND_BEHAVIOR_NOT_PRESENT, OUT_OF_RESOURCES, CRITICAL, CANCELED} \<Longrightarrow>
     for_tasks False (pre @ ts) oor lg =
       for_tasks False ts (oor @ filter (\<lambda>t. status t = OUT_OF_RESOURCES) pre)
         (lg @ map critical_warning (filter (\<lambda>t. status t = CRITICAL) pre))"
proof (induction pre arbitrary: oor lg)
  case Nil
  then show ?case by simp
next
  case (Cons x pre)
  then show ?case by (cases "status x") simp_all
qed

lemma sorted_wrt_split_less:
  assumes "sorted_wrt (<) (map successor_id tasks)" and "t \<in> set tasks"
  shows "\<exists>pre post. tasks = pre @ t # post
           \<and> (\<forall>x\<in>set pre. successor_id x < successor_id t)
           \<and> (\<forall>x\<in>set post. successor_id t < successor_id x)"
proof -
  from assms(2) obtain pre post where sp: "tasks = pre @ t # post"
    by (auto simp: in_set_conv_decomp)
  from assms(1) have "sorted_wrt (\<lambda>a b. successor_id a < successor_id b) tasks"
    by (simp add: sorted_wrt_map)
  then have "(\<forall>x\<in>set pre. successor_id x < successor_id t)
           \<and> (\<forall>x\<in>set post. successor_id t < successor_id x)"
    unfolding sp by (auto simp: sorted_wrt_append)
  with sp show ?thesis by blast
qed

lemma for_tasks_deterministic_error:
  assumes "sorted_wrt (<) (map successor_id tasks)"
    and "t \<in> set tasks"
    and "status t = OUT_OF_RESOURCES \<or> status t = CRITICAL"
    and "error_msg t = Some m"
    and "\<forall>x\<in>set tasks. successor_id x < successor_id t \<longrightarrow> status x = DONE_AND_BEHAVIOR_NOT_PRESENT"
  shows "for_tasks True tasks oor lg =
           (Returned (None, m @ (if status t = OUT_OF_RESOURCES then out_of_resources_text
                                 else critical_text)), lg)"
proof -
  from sorted_wrt_split_less [OF assms(1,2)] obtain pre post where
    sp: "tasks = pre @ t # post" and pre: "\<forall>x\<in>set pre. successor_id x < successor_id t"
    by blast
  from pre assms(5) have "\<forall>x\<in>set pre. status x = DONE_AND_BEHAVIOR_NOT_PRESENT"
    unfolding sp by simp
  then have "for_tasks True tasks oor lg = for_tasks True (t # post) oor lg"
    unfolding sp by (rule for_tasks_not_present_prefix)
  with assms(3,4) show ?thesis by auto
qed

lemma for_tasks_deterministic_accepts:
  assumes "for_tasks True tasks oor lg = (Returned (Some s, msg), lg')"
  shows "\<exists>pre t post. tasks = pre @ t # post
           \<and> (\<forall>x\<in>set pre. status x = DONE_AND_BEHAVIOR_NOT_PRESENT)
           \<and> status t = DONE_AND_BEHAVIOR_PRESENT
           \<and> s = state (successor t) \<and> msg = change_msg (successor t)"
  using assms
proof (induction tasks)
  case Nil
  then show ?case by simp
next
  case (Cons a tasks)
  show ?case
  proof (cases "status a = DONE_AND_BEHAVIOR_NOT_PRESENT")
    case True
    with Cons.prems have "for_tasks True tasks oor lg = (Returned (Some s, msg), lg')" by simp
    from Cons.IH [OF this] obtain pre t post where
      "tasks = pre @ t # post" "\<forall>x\<in>set pre. status x = DONE_AND_BEHAVIOR_NOT_PRESENT"
      "status t = DONE_AND_BEHAVIOR_PRESENT" "s = state (successor t)" "msg = change_msg (successor t)"
      by blast
    with True have "a # tasks = (a # pre) @ t # post
           \<and> (\<forall>x\<in>set (a # pre). status x = DONE_AND_BEHAVIOR_NOT_PRESENT)
           \<and> status t = DONE_AND_BEHAVIOR_PRESENT
           \<and> s = state (successor t) \<and> msg = change_msg (successor t)" by simp
    then show ?thesis by blast
  next
    case False
    with Cons.prems have "status a = DONE_AND_BEHAVIOR_PRESENT
        \<and> s = state (successor a) \<and> msg = change_msg (successor a)"
      by (cases "status a") (auto split: if_splits option.splits)
    then have "a # tasks = [] @ a # tasks
           \<and> (\<forall>x\<in>set []. status x = DONE_AND_BEHAVIOR_NOT_PRESENT)
           \<and> status a = DONE_AND_BEHAVIOR_PRESENT
           \<and> s = state (successor a) \<and> msg = change_msg (successor a)" by simp
    then show ?thesis by blast
  qed
qed

lemma for_tasks_deterministic_not_later:
  assumes "sorted_wrt (<) (map successor_id tasks)"
    and "t \<in> set tasks"
    and "status t = OUT_OF_RESOURCES \<or> status t = CRITICAL"
    and "for_tasks True tasks oor lg = (Returned (Some s, msg), lg')"
  shows "\<exists>t'\<in>set tasks. status t' = DONE_AND_BEHAVIOR_PRESENT \<and> successor_id t' < successor_id t
           \<and> s = state (successor t') \<and> msg = change_msg (successor t')"
proof -
  from for_tasks_deterministic_accepts [OF assms(4)] obtain pre t' post where
    sp: "tasks = pre @ t' # post" and pre: "\<forall>x\<in>set pre. status x = DONE_AND_BEHAVIOR_NOT_PRESENT"
    and t': "status t' = DONE_AND_BEHAVIOR_PRESENT" "s = state (successor t')"
      "msg = change_msg (successor t')"
    by blast
  from assms(3) pre t'(1) assms(2) have "t \<in> set post"
    unfolding sp by auto
  moreover from assms(1) have "\<forall>x\<in>set post. successor_id t' < successor_id x"
    unfolding sp by (simp add: sorted_wrt_map sorted_wrt_append)
  ultimately have "successor_id t' < successor_id t" by blast
  with t' sp show ?thesis by auto
qed

lemma for_tasks_canceled_unreachable:
  assumes "sorted (map successor_id tasks)"
    and "\<forall>t\<in>set tasks. status t = CANCELED \<longrightarrow>
           (\<exists>t'\<in>set tasks. \<exists>ids. on_task_completed True task_ids t' = Some ids
               \<and> successor_id t \<in> set ids)"
  shows "fst (for_tasks True tasks oor lg) \<noteq> Raised (AssertionError [])"
proof
  assume raised: "fst (for_tasks True tasks oor lg) = Raised (AssertionError [])"
  define pre where "pre = takeWhile (\<lambda>x. status x = DONE_AND_BEHAVIOR_NOT_PRESENT) tasks"
  define rest where "rest = dropWhile (\<lambda>x. status x = DONE_AND_BEHAVIOR_NOT_PRESENT) tasks"
  have sp: "tasks = pre @ rest" by (simp add: pre_def rest_def)
  have pre: "\<forall>x\<in>set pre. status x = DONE_AND_BEHAVIOR_NOT_PRESENT"
    unfolding pre_def by (auto dest: set_takeWhileD)
  then have eq: "for_tasks True tasks oor lg = for_tasks True rest oor lg"
    unfolding sp by (rule for_tasks_not_present_prefix)
  show False
  proof (cases rest)
    case Nil
    with raised eq show False by simp
  next
    case (Cons t post)
    have "\<not> status (hd rest) = DONE_AND_BEHAVIOR_NOT_PRESENT"
      unfolding rest_def by (rule hd_dropWhile) (use Cons rest_def in simp)
    then have "status t \<noteq> DONE_AND_BEHAVIOR_NOT_PRESENT" by (simp add: Cons)
    with raised eq Cons have c: "status t = CANCELED"
      by (cases "status t") (auto simp: sq_def split: if_splits option.splits)
    have "t \<in> set tasks" unfolding sp Cons by simp
    with assms(2) c obtain t' ids where t': "t' \<in> set tasks"
      and cb: "on_task_completed True task_ids t' = Some ids" and mem: "successor_id t \<in> set ids"
      by blast
    from cb mem have np: "status t' \<noteq> DONE_AND_BEHAVIOR_NOT_PRESENT"
      and less: "successor_id t' < successor_id t"
      by (auto simp: on_task_completed_def split: if_splits)
    from t' np pre have "t' \<in> set rest" unfolding sp by auto
    then have "t' = t \<or> t' \<in> set post" unfolding Cons by auto
    moreover from assms(1) have "\<forall>x\<in>set post. successor_id t \<le> successor_id x"
      unfolding sp Cons by (simp add: sorted_append)
    ultimately show False using less by auto
  qed
qed
lemma for_tasks_deterministic_finished:
  "for_tasks True tasks oor lg = (Finished c, lg') \<Longrightarrow>
     \<forall>x\<in>set tasks. status x = DONE_AND_BEHAVIOR_NOT_PRESENT"
proof (induction tasks)
  case Nil
  then show ?case by simp
next
  case (Cons a tasks)
  then show ?case by (cases "status a") (auto split: if_splits option.splits)
qed

lemma for_tasks_eager:
  "\<forall>x\<in>set tasks. \<forall>s. status x \<noteq> OTHER s \<Longrightarrow>
   for_tasks False tasks oor lg =
     (case find (\<lambda>x. status x = DONE_AND_BEHAVIOR_PRESENT) tasks of
        Some t \<Rightarrow>
          (Returned (Some (state (successor t)), change_msg (successor t)),
           lg @ map critical_warning
                  (filter (\<lambda>x. status x = CRITICAL)
                     (takeWhile (\<lambda>x. status x \<noteq> DONE_AND_BEHAVIOR_PRESENT) tasks)))
      | None \<Rightarrow>
          (Finished (oor @ filter (\<lambda>x. status x = OUT_OF_RESOURCES) tasks),
           lg @ map critical_warning (filter (\<lambda>x. status x = CRITICAL) tasks)))"
proof (induction tasks arbitrary: oor lg)
  case Nil
  then show ?case by simp
next
  case (Cons a tasks)
  then show ?case by (cases "status a") (simp_all split: option.splits)
qed

text \<open>
  Claim C2, as amended. Deterministic mode, one batch whose tasks the environment yields in
  increasing \<open>successor_id\<close> order, with a task \<open>t\<close> that ended \<open>OUT_OF_RESOURCES\<close> or
  \<open>CRITICAL\<close>. First: whenever \<open>_get_improving_successor\<close> returns an improving state,
  it is the state of a \<open>DONE_AND_BEHAVIOR_PRESENT\<close> task with a smaller \<open>successor_id\<close>
  than \<open>t\<close>, never of a later one. Second: when \<open>t\<close> has an error message and every task
  with a smaller \<open>successor_id\<close> ended \<open>DONE_AND_BEHAVIOR_NOT_PRESENT\<close>, the function
  returns no improving state and the error message of \<open>t\<close> followed by the explanation,
  whatever the later tasks' statuses are.
\<close>

theorem deterministic_error_stops_batch:
  assumes "run environment e evaluator_path batch (on_task_completed True [0..<length batch])
             = (Inr tasks, e')"
    and "sorted_wrt (<) (map successor_id tasks)"
    and "t \<in> set tasks"
    and "status t = OUT_OF_RESOURCES \<or> status t = CRITICAL"
  shows "(\<forall>s msg e2 lg'.
            for_batches environment True evaluator_path (batch # batches) oor e lg
              = (Inr (Some s, msg), e2, lg') \<longrightarrow>
            (\<exists>t'\<in>set tasks. status t' = DONE_AND_BEHAVIOR_PRESENT
                \<and> successor_id t' < successor_id t
                \<and> s = state (successor t') \<and> msg = change_msg (successor t')))
       \<and> (\<forall>m. error_msg t = Some m
              \<and> (\<forall>x\<in>set tasks. successor_id x < successor_id t
                    \<longrightarrow> status x = DONE_AND_BEHAVIOR_NOT_PRESENT) \<longrightarrow>
            for_batches environment True evaluator_path (batch # batches) oor e lg
              = (Inr (None, m @ (if status t = OUT_OF_RESOURCES then out_of_resources_text
                                 else critical_text)), e', lg))"
proof (intro conjI allI impI)
  fix s msg e2 lg'
  assume res: "for_batches environment True evaluator_path (batch # batches) oor e lg
              = (Inr (Some s, msg), e2, lg')"
  obtain r lg1 where ft: "for_tasks True tasks oor lg = (r, lg1)" by (cases "for_tasks True tasks oor lg")
  have "r = Returned (Some s, msg)"
  proof (cases r)
    case (Raised x)
    with res ft assms(1) show ?thesis by simp
  next
    case (Returned x)
    with res ft assms(1) show ?thesis by simp
  next
    case (Finished c)
    with ft have "\<forall>x\<in>set tasks. status x = DONE_AND_BEHAVIOR_NOT_PRESENT"
      by (auto dest: for_tasks_deterministic_finished)
    with assms(3,4) show ?thesis by auto
  qed
  with ft have "for_tasks True tasks oor lg = (Returned (Some s, msg), lg1)" by simp
  from for_tasks_deterministic_not_later [OF assms(2,3,4) this]
  show "\<exists>t'\<in>set tasks. status t' = DONE_AND_BEHAVIOR_PRESENT
                \<and> successor_id t' < successor_id t
                \<and> s = state (successor t') \<and> msg = change_msg (successor t')" .
next
  fix m
  assume h: "error_msg t = Some m
              \<and> (\<forall>x\<in>set tasks. successor_id x < successor_id t
                    \<longrightarrow> status x = DONE_AND_BEHAVIOR_NOT_PRESENT)"
  then have "for_tasks True tasks oor lg =
           (Returned (None, m @ (if status t = OUT_OF_RESOURCES then out_of_resources_text
                                 else critical_text)), lg)"
    using for_tasks_deterministic_error [OF assms(2,3,4)] by blast
  with assms(1) show "for_batches environment True evaluator_path (batch # batches) oor e lg
              = (Inr (None, m @ (if status t = OUT_OF_RESOURCES then out_of_resources_text
                                 else critical_text)), e', lg)"
    by simp
qed

text \<open>
  The scenario of the specification: statuses \<open>OutOfResources, NotPresent, Present\<close> in
  submission order.
\<close>

theorem deterministic_error_stops_batch_witness:
  "for_batches
     (scripted_environment 3
        (\<lambda>n. Inr [OUT_OF_RESOURCES, DONE_AND_BEHAVIOR_NOT_PRESENT, DONE_AND_BEHAVIOR_PRESENT]))
     True ''evaluator.py'' [three_successors] [] 0 []
   = (Inr (None, ''failed'' @ out_of_resources_text), 1, [])"
proof -
  let ?env = "scripted_environment 3
        (\<lambda>n. Inr [OUT_OF_RESOURCES, DONE_AND_BEHAVIOR_NOT_PRESENT, DONE_AND_BEHAVIOR_PRESENT])
        :: (nat, unit) environment"
  let ?tasks = "map scripted_task (zip [0..<3] (zip three_successors
         [OUT_OF_RESOURCES, DONE_AND_BEHAVIOR_NOT_PRESENT, DONE_AND_BEHAVIOR_PRESENT]))"
  let ?t = "scripted_task (0, successor_named ''s0'', OUT_OF_RESOURCES)"
  have r: "run ?env 0 ''evaluator.py'' three_successors
             (on_task_completed True [0..<length three_successors]) = (Inr ?tasks, 1)"
    by (simp add: scripted_environment_def three_successors_def upt_rec)
  have s: "sorted_wrt (<) (map successor_id ?tasks)"
    by (simp add: three_successors_def scripted_task_def upt_rec)
  have m: "?t \<in> set ?tasks"
    by (simp add: three_successors_def upt_rec)
  have st: "status ?t = OUT_OF_RESOURCES \<or> status ?t = CRITICAL"
    by (simp add: scripted_task_def)
  have h: "error_msg ?t = Some ''failed''
              \<and> (\<forall>x\<in>set ?tasks. successor_id x < successor_id ?t
                    \<longrightarrow> status x = DONE_AND_BEHAVIOR_NOT_PRESENT)"
    by (simp add: scripted_task_def)
  from deterministic_error_stops_batch [OF r s m st, of Nil Nil Nil] h st
  show ?thesis by (simp add: scripted_task_def)
qed

text \<open>
  Claim C2 as stated fails: with statuses \<open>Present, OutOfResources, Present\<close> the task
  with \<open>successor_id\<close> 1 ended \<open>OUT_OF_RESOURCES\<close>, and the function returns the state
  of task 0 instead of no improving state.
\<close>

theorem deterministic_error_counterexample:
  "get_improving_successor
     (scripted_environment 3
        (\<lambda>n. Inr [DONE_AND_BEHAVIOR_PRESENT, OUT_OF_RESOURCES, DONE_AND_BEHAVIOR_PRESENT]))
     True ''evaluator.py'' three_successors 0 []
   = (Inr (Some [(''s0'', ())], ''s0''), 1, [])"
  by (simp add: get_improving_successor_def scripted_environment_def three_successors_def
      batched.simps scripted_task_def successor_named_def upt_rec)

text \<open>
  Claim C3. Eager mode, one batch whose tasks carry statuses among the five named ones.
  The first task in the reported order with status \<open>DONE_AND_BEHAVIOR_PRESENT\<close> is returned
  (its state and change message), whatever \<open>OUT_OF_RESOURCES\<close> or \<open>CRITICAL\<close> tasks
  come before it; each \<open>CRITICAL\<close> task before it is logged as a warning. Without such a
  task the loop goes on to the next batch, with the batch's \<open>OUT_OF_RESOURCES\<close> tasks added
  to \<open>tasks_out_of_resources\<close> and its \<open>CRITICAL\<close> tasks logged. The completion callback
  returns all task ids of the batch for cancellation on a \<open>DONE_AND_BEHAVIOR_PRESENT\<close>
  task, and \<open>None\<close>, no cancellation, on a task of any other status: a peer that ended
  \<open>OUT_OF_RESOURCES\<close> or \<open>CRITICAL\<close> cancels nothing.
\<close>

theorem eager_first_present_wins:
  assumes "run environment e evaluator_path batch (on_task_completed False [0..<length batch])
             = (Inr tasks, e')"
    and "\<forall>x\<in>set tasks. \<forall>s. status x \<noteq> OTHER s"
  shows "for_batches environment False evaluator_path (batch # batches) oor e lg =
           (case find (\<lambda>x. status x = DONE_AND_BEHAVIOR_PRESENT) tasks of
              Some t \<Rightarrow>
                (Inr (Some (state (successor t)), change_msg (successor t)), e',
                 lg @ map critical_warning
                        (filter (\<lambda>x. status x = CRITICAL)
                           (takeWhile (\<lambda>x. status x \<noteq> DONE_AND_BEHAVIOR_PRESENT) tasks)))
            | None \<Rightarrow>
                for_batches environment False evaluator_path batches
                  (oor @ filter (\<lambda>x. status x = OUT_OF_RESOURCES) tasks) e'
                  (lg @ map critical_warning (filter (\<lambda>x. status x = CRITICAL) tasks)))
       \<and> (\<forall>t. on_task_completed False [0..<length batch] t =
             (if status t = DONE_AND_BEHAVIOR_PRESENT then Some [0..<length batch] else None))"
  using assms(1) for_tasks_eager [OF assms(2), of oor lg]
  by (simp add: on_task_completed_def split: option.splits)

theorem eager_first_present_wins_witness:
  "for_batches
     (scripted_environment 3 (\<lambda>n. Inr [OUT_OF_RESOURCES, CRITICAL, DONE_AND_BEHAVIOR_PRESENT]))
     False ''evaluator.py'' [three_successors] [] 0 []
   = (Inr (Some [(''s2'', ())], ''s2''), 1,
      [Warning (''failed'' @ nl @ ''Critical error in '' @ sq @ ''run'' @ sq)])"
proof -
  let ?env = "scripted_environment 3
        (\<lambda>n. Inr [OUT_OF_RESOURCES, CRITICAL, DONE_AND_BEHAVIOR_PRESENT])
        :: (nat, unit) environment"
  let ?tasks = "map scripted_task (zip [0..<3] (zip three_successors
         [OUT_OF_RESOURCES, CRITICAL, DONE_AND_BEHAVIOR_PRESENT]))"
  have r: "run ?env 0 ''evaluator.py'' three_successors
             (on_task_completed False [0..<length three_successors]) = (Inr ?tasks, 1)"
    by (simp add: scripted_environment_def three_successors_def upt_rec)
  have o: "\<forall>x\<in>set ?tasks. \<forall>s. status x \<noteq> OTHER s"
    by (simp add: three_successors_def scripted_task_def upt_rec)
  from eager_first_present_wins [OF r o, of Nil Nil Nil]
  have "for_batches ?env False ''evaluator.py'' [three_successors] [] 0 [] =
           (case find (\<lambda>x. status x = DONE_AND_BEHAVIOR_PRESENT) ?tasks of
              Some t \<Rightarrow>
                (Inr (Some (state (successor t)), change_msg (successor t)), 1,
                 [] @ map critical_warning
                        (filter (\<lambda>x. status x = CRITICAL)
                           (takeWhile (\<lambda>x. status x \<noteq> DONE_AND_BEHAVIOR_PRESENT) ?tasks)))
            | None \<Rightarrow>
                for_batches ?env False ''evaluator.py'' []
                  ([] @ filter (\<lambda>x. status x = OUT_OF_RESOURCES) ?tasks) 1
                  ([] @ map critical_warning (filter (\<lambda>x. status x = CRITICAL) ?tasks)))"
    by (rule conjunct1)
  also have "\<dots> = (Inr (Some [(''s2'', ())], ''s2''), 1,
      [Warning (''failed'' @ nl @ ''Critical error in '' @ sq @ ''run'' @ sq)])"
    by (simp add: three_successors_def scripted_task_def upt_rec successor_named_def
        critical_warning_def fmt_opt_def)
  finally show ?thesis .
qed

text \<open>
  Claim C10. Deterministic mode: if the tasks of a batch come in \<open>successor_id\<close> order and
  every \<open>CANCELED\<close> task has its id among those that the completion callback returned for
  some task of the batch, then the loop over the tasks never fails the assertion of the
  \<open>CANCELED\<close> branch (the only assertion raised with an empty message).
\<close>

theorem canceled_branch_unreachable:
  assumes "sorted (map successor_id tasks)"
    and "\<forall>t\<in>set tasks. status t = CANCELED \<longrightarrow>
           (\<exists>t'\<in>set tasks. \<exists>ids. on_task_completed True task_ids t' = Some ids
               \<and> successor_id t \<in> set ids)"
  shows "fst (for_tasks True tasks oor lg) \<noteq> Raised (AssertionError [])"
  using assms by (rule for_tasks_canceled_unreachable)

theorem canceled_branch_unreachable_witness:
  "fst (for_tasks True
     (map scripted_task (zip [0..<3] (zip three_successors
         [DONE_AND_BEHAVIOR_NOT_PRESENT, CRITICAL, CANCELED]))) [] [])
   \<noteq> Raised (AssertionError [])"
proof -
  let ?tasks = "map scripted_task (zip [0..<3] (zip three_successors
         [DONE_AND_BEHAVIOR_NOT_PRESENT, CRITICAL, CANCELED]))"
  have s: "sorted (map successor_id ?tasks)"
    by (simp add: three_successors_def scripted_task_def upt_rec)
  have c: "\<forall>t\<in>set ?tasks. status t = CANCELED \<longrightarrow>
           (\<exists>t'\<in>set ?tasks. \<exists>ids. on_task_completed True [0..<3] t' = Some ids
               \<and> successor_id t \<in> set ids)"
    by (simp add: three_successors_def scripted_task_def upt_rec on_task_completed_def)
  from canceled_branch_unreachable [OF s c] show ?thesis .
qed

text \<open>
  Claim C4, as amended. \<open>search\<close> first runs the initial state as a batch of one
  successor. With the one resulting task: \<open>DONE_AND_BEHAVIOR_PRESENT\<close> goes on to the
  search loop; \<open>DONE_AND_BEHAVIOR_NOT_PRESENT\<close> raises the \<open>ValueError\<close> that the initial
  state lacks the property; \<open>OUT_OF_RESOURCES\<close> and \<open>CRITICAL\<close> log and go on in eager
  mode and raise a \<open>ValueError\<close> in deterministic mode; \<open>CANCELED\<close> logs a warning and
  goes on to the search loop in both modes; any other status raises a \<open>ValueError\<close>.
\<close>

theorem initial_state_check:
  assumes "run environment (start_new_iteration environment e) evaluator_path
             [\<lparr>state = initial_state, change_msg = ''Initial state''\<rparr>] (\<lambda>_. None)
           = (Inr [task], e1)"
  shows "search fuel environment initial_state get_successors evaluator_path deterministic e lg =
    (case status task of
       DONE_AND_BEHAVIOR_PRESENT \<Rightarrow>
         search_loop fuel environment get_successors evaluator_path deterministic
           initial_state None None e1
           (lg @ [Info ''Initial has property.'', Info ''Starting search ...''])
     | DONE_AND_BEHAVIOR_NOT_PRESENT \<Rightarrow>
         (Some (Inl (ValueError ''Initial state does not have the evaluated property.'')), e1,
          lg @ [Critical ''Initial state does not have property!''])
     | OUT_OF_RESOURCES \<Rightarrow>
         (if deterministic
          then (Some (Inl (ValueError (''Initial state evaluation ran out of resources! ''
                  @ ''Cannot verify if it has the evaluated property.''))), e1,
                lg @ [Warning (''Initial state evaluation ran out of resources! ''
                               @ ''Cannot verify if it has the property.'')])
          else search_loop fuel environment get_successors evaluator_path deterministic
                 initial_state None None e1
                 (lg @ [Warning (''Initial state evaluation ran out of resources! ''
                                 @ ''Cannot verify if it has the property.''),
                        Info ''Starting search ...'']))
     | CRITICAL \<Rightarrow>
         (if deterministic
          then (Some (Inl (ValueError (''Initial state evaluation failed with a critical error! ''
                  @ ''Cannot verify if it has the evaluated property.''))), e1,
                lg @ [Critical (''Initial state evaluation failed with a critical error! ''
                                @ ''Cannot verify if it has the property.'')])
          else search_loop fuel environment get_successors evaluator_path deterministic
                 initial_state None None e1
                 (lg @ [Critical (''Initial state evaluation failed with a critical error! ''
                                  @ ''Cannot verify if it has the property.''),
                        Info ''Starting search ...'']))
     | CANCELED \<Rightarrow>
         search_loop fuel environment get_successors evaluator_path deterministic
           initial_state None None e1
           (lg @ [Warning (''Initial state evaluation was canceled. ''
                           @ ''Cannot verify if it has the property.''),
                  Info ''Starting search ...''])
     | OTHER s \<Rightarrow>
         (Some (Inl (ValueError (''Unexpected task status: '' @ sq @ s @ sq @ ''.''))), e1, lg))"
  using assms by (simp add: search_def Let_def split: status.splits)

theorem initial_state_check_witness:
  "search 1 (scripted_environment 1 (\<lambda>k. Inr [DONE_AND_BEHAVIOR_NOT_PRESENT]))
     one_state (\<lambda>s. []) ''evaluator.py'' False 0 []
   = (Some (Inl (ValueError ''Initial state does not have the evaluated property.'')), 1,
      [Critical ''Initial state does not have property!''])"
proof -
  let ?env = "scripted_environment 1 (\<lambda>k. Inr [DONE_AND_BEHAVIOR_NOT_PRESENT])
                :: (nat, unit) environment"
  let ?task = "scripted_task (0, \<lparr>state = one_state, change_msg = ''Initial state''\<rparr>,
                 DONE_AND_BEHAVIOR_NOT_PRESENT) :: unit EvaluationTask"
  have r: "run ?env (start_new_iteration ?env 0) ''evaluator.py''
             [\<lparr>state = one_state, change_msg = ''Initial state''\<rparr>] (\<lambda>_. None)
           = (Inr [?task], 1)"
    by (simp add: scripted_environment_def)
  have st: "status ?task = DONE_AND_BEHAVIOR_NOT_PRESENT"
    by (simp add: scripted_task_def)
  from initial_state_check [OF r, of 1 "\<lambda>s. []" False Nil] st show ?thesis
    by simp
qed

text \<open>
  Claim C4 as stated fails: a \<open>CANCELED\<close> initial task is no error. Here the search, in
  deterministic mode and with no successors, returns the initial state.
\<close>

theorem initial_state_canceled_counterexample:
  "search 1 (scripted_environment 1 (\<lambda>k. Inr [CANCELED]))
     one_state (\<lambda>s. []) ''evaluator.py'' True 0 []
   = (Some (Inr one_state), 1,
      [Warning (''Initial state evaluation was canceled. ''
                @ ''Cannot verify if it has the property.''),
       Info ''Starting search ...'',
       Info ''No improving successor was found.''])"
  by (simp add: search_def scripted_environment_def scripted_task_def
      get_improving_successor_def batched.simps no_improving_message_def after_try_def)

lemma failing_after_fields:
  "run (failing_after n ex) e p batch cb =
     (if e < n
      then Inr (map scripted_task (zip [0..<length batch] (zip batch [DONE_AND_BEHAVIOR_PRESENT])))
      else Inl ex, Suc e)"
  "start_new_iteration (failing_after n ex) e = e"
  "batch_size (failing_after n ex) = 1"
  by (simp_all add: failing_after_def scripted_environment_def)

lemma get_improving_successor_failing:
  assumes "n \<le> e" and "succs \<noteq> []"
  shows "get_improving_successor (failing_after n ex) d p succs e lg = (Inl ex, Suc e, lg)"
  unfolding get_improving_successor_def
  using assms by (subst batched.simps) (simp add: failing_after_fields)

lemma search_loop_stale:
  assumes "n \<le> e" and "s \<noteq> []" and "\<And>c. gen c \<noteq> []"
  shows "fst (search_loop fuel (failing_after n (PollingError x)) gen p d cur
                (Some (Some s)) (Some m) e lg) = None"
  using assms(1)
proof (induction fuel arbitrary: e lg cur)
  case 0
  then show ?case by simp
next
  case (Suc fuel)
  have g: "get_improving_successor (failing_after n (PollingError x)) d p (gen cur) e lg
             = (Inl (PollingError x), Suc e, lg)"
    using Suc.prems assms(3) by (simp add: get_improving_successor_failing)
  have "n \<le> Suc e" using Suc.prems by simp
  from Suc.IH [OF this] assms(2) show ?case
    by (subst search_loop.simps(2))
       (simp add: g failing_after_fields after_try_def del: search_loop.simps)
qed

text \<open>
  Claim C9 fails on the code. When the first batch of successors is refused
  (\<open>SubmissionError\<close>), \<open>search\<close> logs the cause and then reads the unbound local
  \<open>message\<close>: it ends with \<open>UnboundLocalError\<close>. When the error comes in a later
  iteration, the locals still hold the previous iteration's improving state, and the
  loop goes on: with an environment that keeps failing, no amount of fuel lets it return.
\<close>

theorem search_error_not_terminated:
  "search 1 (failing_after 1 (SubmissionError ''refused''))
     one_state (\<lambda>s. [successor_named ''s1'']) ''evaluator.py'' False 0 []
   = (Some (Inl (UnboundLocalError ''message'')), 2,
      [Info ''Initial has property.'', Info ''Starting search ...'',
       submission_failed ''refused''])
   \<and> (\<forall>fuel. fst (search fuel (failing_after 2 (PollingError ''lost''))
                     one_state (\<lambda>s. [successor_named ''s1'']) ''evaluator.py'' False 0 [])
              = None)"
proof
  show "search 1 (failing_after 1 (SubmissionError ''refused''))
     one_state (\<lambda>s. [successor_named ''s1'']) ''evaluator.py'' False 0 []
   = (Some (Inl (UnboundLocalError ''message'')), 2,
      [Info ''Initial has property.'', Info ''Starting search ...'',
       submission_failed ''refused''])"
    by (simp add: search_def failing_after_fields scripted_task_def
        get_improving_successor_def batched.simps after_try_def)
next
  show "\<forall>fuel. fst (search fuel (failing_after 2 (PollingError ''lost''))
                     one_state (\<lambda>s. [successor_named ''s1'']) ''evaluator.py'' False 0 [])
              = None"
  proof
    fix fuel
    show "fst (search fuel (failing_after 2 (PollingError ''lost''))
                     one_state (\<lambda>s. [successor_named ''s1'']) ''evaluator.py'' False 0 [])
              = None"
    proof (cases fuel)
      case 0
      then show ?thesis
        by (simp add: search_def failing_after_fields scripted_task_def)
    next
      case (Suc k)
      have g: "get_improving_successor (failing_after 2 (PollingError ''lost'')) False
                 ''evaluator.py'' [successor_named ''s1''] (Suc 0) lg
               = (Inr (Some [(''s1'', ())], ''s1''), 2, lg)" for lg
        unfolding get_improving_successor_def
        by (subst batched.simps)
           (simp add: failing_after_fields scripted_task_def successor_named_def batched.simps)
      have "fst (search_loop k (failing_after 2 (PollingError ''lost''))
                (\<lambda>s. [successor_named ''s1'']) ''evaluator.py'' False [(''s1'', ())]
                (Some (Some [(''s1'', ())])) (Some ''s1'') 2 lg)
             = None" for lg
        by (rule search_loop_stale) simp_all
      then show ?thesis unfolding Suc
        by (simp add: search_def failing_after_fields scripted_task_def g after_try_def)
    qed
  qed
qed

section \<open>Properties of sas/files.py\<close>


lemma bind_exn_InrE:
  assumes "bind_exn m f = Inr y"
  obtains x where "m = Inr x" and "f x = Inr y"
  using assms by (cases m) (simp_all add: bind_exn_def)


lemma bind_exn_simps [simp]:
  "bind_exn (Inl e) f = Inl e"
  "bind_exn (Inr x) f = f x"
  by (simp_all add: bind_exn_def)

lemma skip_to_metric_append:
  "''begin_metric'' \<notin> set pre \<Longrightarrow> skip_to_metric (pre @ ''begin_metric'' # rest) = Inr rest"
  by (induction pre) auto


lemma parse_task_metric:
  assumes "parse_task ls = Inr t"
  shows "\<exists>ls0 ml ls1. skip_to_metric ls = Inr ls0 \<and> next_line ls0 = Inr (ml, ls1)
           \<and> metric t = (ml \<noteq> [])"
  using assms unfolding parse_task_def
  by (auto elim!: bind_exn_InrE)

lemma metric_zero_read_true:
  assumes "''begin_metric'' \<notin> set pre"
    and "parse_task (pre @ ''begin_metric'' # ''0'' # rest) = Inr t"
  shows "metric t"
  using parse_task_metric [OF assms(2)] assms(1)
  by (auto simp: skip_to_metric_append next_line_def)

lemma minimal_round_trip:
  "parse_task (splitlines (output_task (minimal_task False))) = Inr (minimal_task True)"
  by code_simp

text \<open>
  Claim C1 fails on the code. The reader takes \<open>bool\<close> of the metric line, a string,
  which is true for every line that is not empty: a task written with the metric flag
  off (the line \<open>0\<close>) is read back with the flag on. The minimal task with the flag
  off does not survive the round trip, whatever the validation does, and every file
  whose metric line is \<open>0\<close> is read as a task with the flag on.
\<close>

theorem metric_flag_not_restored:
  "parse_task (splitlines (output_task (minimal_task False))) = Inr (minimal_task True)
   \<and> (\<forall>validate. read_task validate (output_task (minimal_task False))
                   \<noteq> Inr (minimal_task False))
   \<and> (\<forall>pre rest t. ''begin_metric'' \<notin> set pre
          \<and> parse_task (pre @ ''begin_metric'' # ''0'' # rest) = Inr t \<longrightarrow> metric t)"
proof (intro conjI allI impI)
  show "parse_task (splitlines (output_task (minimal_task False))) = Inr (minimal_task True)"
    by (rule minimal_round_trip)
next
  fix validate
  have "read_task validate (output_task (minimal_task False)) =
          (case validate (minimal_task True) of
             Some e \<Rightarrow> Inl e | None \<Rightarrow> Inr (minimal_task True))"
    by (simp add: read_task_def minimal_round_trip)
  moreover have "minimal_task True \<noteq> minimal_task False"
    by (simp add: minimal_task_def)
  ultimately
  show "read_task validate (output_task (minimal_task False)) \<noteq> Inr (minimal_task False)"
    by (auto split: option.splits)
next
  fix pre rest t
  assume "''begin_metric'' \<notin> set pre
          \<and> parse_task (pre @ ''begin_metric'' # ''0'' # rest) = Inr t"
  then show "metric t" using metric_zero_read_true by blast
qed

theorem metric_flag_not_restored_witness:
  "metric (minimal_task True)
   \<and> parse_task ([''begin_metric'', ''0''] @ drop 2 (output_lines (minimal_task False)))
       = Inr (minimal_task True)"
proof -
  have p: "parse_task ([] @ ''begin_metric'' # ''0'' # drop 2 (output_lines (minimal_task False)))
       = Inr (minimal_task True)"
    by code_simp
  have "''begin_metric'' \<notin> set []" by simp
  with metric_flag_not_restored p have "metric (minimal_task True)" by blast
  with p show ?thesis by simp
qed

subsection \<open>Reader failures\<close>














lemma reader_errors_members [simp]:
  "StopIteration \<in> reader_errors" "AssertionError [] \<in> reader_errors"
  "IndexError \<in> reader_errors"
  by (simp_all add: reader_errors_def)

















lemma expect_line_Nil: "expect_line d [] = Inl StopIteration"
  by (simp add: expect_line_def next_line_def)













subsection \<open>Lines that the reader does not look at\<close>






















subsection \<open>\<open>renamed_sas\<close>\<close>


lemma length_alphabet [simp]: "length alphabet = 26"
  by (simp add: alphabet_def)

lemma rename_values_ok:
  assumes "i < length vn" and "\<forall>j\<in>set js. j < 26 \<and> j < length (vn ! i)"
  shows "\<exists>vn'. rename_values i js vn = Inr vn' \<and> length vn' = length vn
           \<and> (\<forall>k<length vn. k \<noteq> i \<longrightarrow> vn' ! k = vn ! k)
           \<and> length (vn' ! i) = length (vn ! i)
           \<and> (\<forall>j<length (vn ! i).
                 vn' ! i ! j = (if j \<in> set js then new_value_name i j else vn ! i ! j))"
  using assms
proof (induction js arbitrary: vn)
  case Nil
  then show ?case by simp
next
  case (Cons j js)
  let ?vn1 = "vn[i := (vn ! i)[j := upper (alphabet ! j) # py_str (int i)]]"
  from Cons.prems have j: "j < 26" "j < length (vn ! i)" by simp_all
  have step: "rename_values i (j # js) vn = rename_values i js ?vn1"
    using Cons.prems(1) j by (simp add: py_index_def)
  have i1: "i < length ?vn1" using Cons.prems(1) by simp
  have len: "?vn1 ! i = (vn ! i)[j := upper (alphabet ! j) # py_str (int i)]"
    using Cons.prems(1) by simp
  have js1: "\<forall>j'\<in>set js. j' < 26 \<and> j' < length (?vn1 ! i)"
    using Cons.prems(2) by (simp add: len)
  from Cons.IH [OF i1 js1] obtain vn' where
    r: "rename_values i js ?vn1 = Inr vn'" and l: "length vn' = length ?vn1"
    and o: "\<forall>k<length ?vn1. k \<noteq> i \<longrightarrow> vn' ! k = ?vn1 ! k"
    and li: "length (vn' ! i) = length (?vn1 ! i)"
    and v: "\<forall>j'<length (?vn1 ! i).
                 vn' ! i ! j' = (if j' \<in> set js then new_value_name i j' else ?vn1 ! i ! j')"
    by blast
  have "\<forall>j'<length (vn ! i).
          vn' ! i ! j' = (if j' \<in> set (j # js) then new_value_name i j' else vn ! i ! j')"
    using v by (auto simp: len new_value_name_def nth_list_update)
  moreover have "\<forall>k<length vn. k \<noteq> i \<longrightarrow> vn' ! k = vn ! k"
    using o by simp
  ultimately show ?case using step r l li by (simp add: len)
qed

lemma rename_values_Inr_bound:
  "rename_values i js vn = Inr vn' \<Longrightarrow> \<forall>j\<in>set js. j < 26"
  by (induction js arbitrary: vn) (auto simp: py_index_def split: if_splits sum.splits)

lemma rename_values_Inl: "rename_values i js vn = Inl e \<Longrightarrow> e = IndexError"
  by (induction js arbitrary: vn) (auto simp: py_index_def split: if_splits sum.splits)

lemma rename_variables_ok:
  assumes "distinct (map fst ps)"
    and "\<forall>(i, r)\<in>set ps. i < length vn \<and> r \<le> 26 \<and> nat r \<le> length (vn ! i)"
  shows "\<exists>vn'. rename_variables ps vn = Inr vn' \<and> length vn' = length vn
           \<and> (\<forall>k<length vn. length (vn' ! k) = length (vn ! k))
           \<and> (\<forall>k<length vn. k \<notin> fst ` set ps \<longrightarrow> vn' ! k = vn ! k)
           \<and> (\<forall>(i, r)\<in>set ps. \<forall>j<length (vn ! i).
                 vn' ! i ! j = (if j < nat r then new_value_name i j else vn ! i ! j))"
  using assms
proof (induction ps arbitrary: vn)
  case Nil
  then show ?case by simp
next
  case (Cons p ps)
  obtain i r where p: "p = (i, r)" by (cases p)
  from Cons.prems(2) p have i: "i < length vn" and r: "r \<le> 26" "nat r \<le> length (vn ! i)"
    by simp_all
  have "\<forall>j\<in>set [0..<nat r]. j < 26 \<and> j < length (vn ! i)" using r by auto
  from rename_values_ok [OF i this] obtain vn1 where
    v1: "rename_values i [0..<nat r] vn = Inr vn1" and l1: "length vn1 = length vn"
    and o1: "\<forall>k<length vn. k \<noteq> i \<longrightarrow> vn1 ! k = vn ! k"
    and li1: "length (vn1 ! i) = length (vn ! i)"
    and n1: "\<forall>j<length (vn ! i).
               vn1 ! i ! j = (if j \<in> set [0..<nat r] then new_value_name i j else vn ! i ! j)"
    by blast
  have ll1: "\<forall>k<length vn. length (vn1 ! k) = length (vn ! k)"
  proof (intro allI impI)
    fix k assume "k < length vn"
    with o1 li1 show "length (vn1 ! k) = length (vn ! k)" by (cases "k = i") simp_all
  qed
  from Cons.prems(1) p have d: "distinct (map fst ps)" and ni: "i \<notin> fst ` set ps" by auto
  have pre: "\<forall>(i', r')\<in>set ps. i' < length vn1 \<and> r' \<le> 26 \<and> nat r' \<le> length (vn1 ! i')"
    using Cons.prems(2) l1 ll1 by auto
  from Cons.IH [OF d pre] obtain vn' where
    v: "rename_variables ps vn1 = Inr vn'" and l: "length vn' = length vn1"
    and ll: "\<forall>k<length vn1. length (vn' ! k) = length (vn1 ! k)"
    and o: "\<forall>k<length vn1. k \<notin> fst ` set ps \<longrightarrow> vn' ! k = vn1 ! k"
    and n: "\<forall>(i', r')\<in>set ps. \<forall>j<length (vn1 ! i').
                 vn' ! i' ! j = (if j < nat r' then new_value_name i' j else vn1 ! i' ! j)"
    by blast
  have res: "rename_variables (p # ps) vn = Inr vn'" using v1 v p by simp
  have c1: "length vn' = length vn" using l l1 by simp
  have c2: "\<forall>k<length vn. length (vn' ! k) = length (vn ! k)" using ll ll1 l1 by simp
  have c3: "\<forall>k<length vn. k \<notin> fst ` set (p # ps) \<longrightarrow> vn' ! k = vn ! k"
    using o o1 l1 p by auto
  have head: "\<forall>j<length (vn ! i).
      vn' ! i ! j = (if j < nat r then new_value_name i j else vn ! i ! j)"
    using o ni i l1 n1 by auto
  have tail: "\<forall>(i', r')\<in>set ps. \<forall>j<length (vn ! i').
      vn' ! i' ! j = (if j < nat r' then new_value_name i' j else vn ! i' ! j)"
  proof (intro ballI, clarify)
    fix i' r' j
    assume m: "(i', r') \<in> set ps" and j: "j < length (vn ! i')"
    from m ni have ne: "i' \<noteq> i" by force
    from m Cons.prems(2) have i': "i' < length vn" by auto
    from o1 ne i' have e: "vn1 ! i' = vn ! i'" by simp
    from n m j e show "vn' ! i' ! j = (if j < nat r' then new_value_name i' j else vn ! i' ! j)"
      by auto
  qed
  have c4: "\<forall>(i', r')\<in>set (p # ps). \<forall>j<length (vn ! i').
      vn' ! i' ! j = (if j < nat r' then new_value_name i' j else vn ! i' ! j)"
    using head tail p by auto
  from res c1 c2 c3 c4 show ?case by blast
qed

lemma rename_variables_Inr_bound:
  "rename_variables ps vn = Inr vn' \<Longrightarrow> \<forall>(i, r)\<in>set ps. r \<le> 26"
proof (induction ps arbitrary: vn)
  case Nil
  then show ?case by simp
next
  case (Cons p ps)
  obtain i r where p: "p = (i, r)" by (cases p)
  from Cons.prems p obtain vn1 where v1: "rename_values i [0..<nat r] vn = Inr vn1"
    and v: "rename_variables ps vn1 = Inr vn'"
    by (auto split: sum.splits)
  from rename_values_Inr_bound [OF v1] have "\<forall>j<nat r. j < 26" by simp
  then have "\<not> 26 < nat r" by auto
  then have "r \<le> 26" by simp
  with Cons.IH [OF v] p show ?case by simp
qed

lemma rename_variables_Inl: "rename_variables ps vn = Inl e \<Longrightarrow> e = IndexError"
proof (induction ps arbitrary: vn)
  case Nil
  then show ?case by simp
next
  case (Cons p ps)
  then show ?case by (cases p) (auto dest: rename_values_Inl split: sum.splits)
qed

lemma rename_operators_ok:
  assumes "\<forall>i\<in>set is. i < 26 \<and> i < length ops"
  shows "\<exists>ops'. rename_operators is ops = Inr ops' \<and> length ops' = length ops
           \<and> (\<forall>k<length ops.
                 ops' ! k = (if k \<in> set is then (ops ! k)\<lparr>name := new_operator_name k\<rparr>
                             else ops ! k))"
  using assms
proof (induction "is" arbitrary: ops)
  case Nil
  then show ?case by simp
next
  case (Cons i "is")
  let ?ops1 = "ops[i := (ops ! i)\<lparr>name := ''('' @ [alphabet ! i] @ '')''\<rparr>]"
  from Cons.prems have i: "i < 26" "i < length ops" by simp_all
  have step: "rename_operators (i # is) ops = rename_operators is ?ops1"
    using i by (simp add: py_index_def)
  have "\<forall>i'\<in>set is. i' < 26 \<and> i' < length ?ops1" using Cons.prems by simp
  from Cons.IH [OF this] obtain ops' where
    r: "rename_operators is ?ops1 = Inr ops'" and l: "length ops' = length ?ops1"
    and n: "\<forall>k<length ?ops1.
                 ops' ! k = (if k \<in> set is then (?ops1 ! k)\<lparr>name := new_operator_name k\<rparr>
                             else ?ops1 ! k)"
    by blast
  have "\<forall>k<length ops.
          ops' ! k = (if k \<in> set (i # is) then (ops ! k)\<lparr>name := new_operator_name k\<rparr>
                      else ops ! k)"
  proof (intro allI impI)
    fix k assume k: "k < length ops"
    with n have e: "ops' ! k = (if k \<in> set is then (?ops1 ! k)\<lparr>name := new_operator_name k\<rparr>
                                else ?ops1 ! k)"
      by simp
    show "ops' ! k = (if k \<in> set (i # is) then (ops ! k)\<lparr>name := new_operator_name k\<rparr>
                      else ops ! k)"
    proof (cases "k = i")
      case True
      with k have "?ops1 ! k = (ops ! k)\<lparr>name := new_operator_name k\<rparr>"
        by (simp add: new_operator_name_def)
      with e True show ?thesis by simp
    next
      case False
      then have "?ops1 ! k = ops ! k" by simp
      with e False show ?thesis by simp
    qed
  qed
  with step r l show ?case by simp
qed

lemma rename_operators_Inr_bound:
  "rename_operators is ops = Inr ops' \<Longrightarrow> \<forall>i\<in>set is. i < 26"
  by (induction "is" arbitrary: ops) (auto simp: py_index_def split: if_splits sum.splits)

lemma rename_operators_Inl: "rename_operators is ops = Inl e \<Longrightarrow> e = IndexError"
  by (induction "is" arbitrary: ops) (auto simp: py_index_def split: if_splits sum.splits)


lemma enumerate_pairs:
  "(i, r) \<in> set (zip [0..<length rs] rs) \<longleftrightarrow> i < length rs \<and> r = rs ! i"
proof
  assume "(i, r) \<in> set (zip [0..<length rs] rs)"
  then show "i < length rs \<and> r = rs ! i" by (auto simp: in_set_zip)
next
  assume "i < length rs \<and> r = rs ! i"
  then show "(i, r) \<in> set (zip [0..<length rs] rs)"
    unfolding in_set_zip by (intro exI [of _ i]) simp
qed

text \<open>
  Claim C6, as amended. Take a task whose lists of value names are as long as the
  domain sizes say. If every domain size and the number of operators are at most 26,
  \<open>renamed_sas\<close> gives the task in which value \<open>j\<close> of variable \<open>i\<close> is named by the
  upper-case \<open>j\<close>-th letter followed by \<open>i\<close>, and operator \<open>i\<close> by the \<open>i\<close>-th letter
  in parentheses; domain sizes and the number of operators stay. If a domain size or
  the number of operators is above 26, \<open>renamed_sas\<close> raises \<open>IndexError\<close>, from the
  index into the alphabet.
\<close>

theorem renamed_sas_names:
  assumes "length (ranges (variables t)) \<le> length (value_names (variables t))"
    and "\<forall>i<length (ranges (variables t)).
           nat (ranges (variables t) ! i) \<le> length (value_names (variables t) ! i)"
  shows "((\<forall>i<length (ranges (variables t)). ranges (variables t) ! i \<le> 26)
            \<and> length (operators t) \<le> 26 \<longrightarrow>
          (\<exists>t'. renamed_sas t = Inr t'
             \<and> (\<forall>i<length (ranges (variables t)). \<forall>j<nat (ranges (variables t) ! i).
                   value_names (variables t') ! i ! j = upper (alphabet ! j) # py_str (int i))
             \<and> (\<forall>i<length (operators t).
                   name (operators t' ! i) = ''('' @ [alphabet ! i] @ '')'')
             \<and> ranges (variables t') = ranges (variables t)
             \<and> length (value_names (variables t')) = length (value_names (variables t))
             \<and> length (operators t') = length (operators t)))
       \<and> ((\<exists>i<length (ranges (variables t)). 26 < ranges (variables t) ! i)
            \<or> 26 < length (operators t) \<longrightarrow>
          renamed_sas t = Inl IndexError)"
proof (intro conjI impI)
  let ?rs = "ranges (variables t)"
  let ?vn = "value_names (variables t)"
  let ?ps = "zip [0..<length ?rs] ?rs"
  assume small: "(\<forall>i<length ?rs. ?rs ! i \<le> 26) \<and> length (operators t) \<le> 26"
  have d: "distinct (map fst ?ps)" by simp
  have pre: "\<forall>(i, r)\<in>set ?ps. i < length ?vn \<and> r \<le> 26 \<and> nat r \<le> length (?vn ! i)"
    using assms small by (auto simp: enumerate_pairs)
  from rename_variables_ok [OF d pre] obtain vn' where
    v: "rename_variables ?ps ?vn = Inr vn'" and lv: "length vn' = length ?vn"
    and n: "\<forall>(i, r)\<in>set ?ps. \<forall>j<length (?vn ! i).
                 vn' ! i ! j = (if j < nat r then new_value_name i j else ?vn ! i ! j)"
    by blast
  have "\<forall>i\<in>set [0..<length (operators t)]. i < 26 \<and> i < length (operators t)"
    using small by auto
  from rename_operators_ok [OF this] obtain ops' where
    o: "rename_operators [0..<length (operators t)] (operators t) = Inr ops'"
    and lo: "length ops' = length (operators t)"
    and no: "\<forall>k<length (operators t).
                 ops' ! k = (if k \<in> set [0..<length (operators t)]
                             then (operators t ! k)\<lparr>name := new_operator_name k\<rparr>
                             else operators t ! k)"
    by blast
  let ?t' = "t\<lparr>variables := (variables t)\<lparr>value_names := vn'\<rparr>, operators := ops'\<rparr>"
  have res: "renamed_sas t = Inr ?t'" using v o by (simp add: renamed_sas_def)
  have names: "\<forall>i<length ?rs. \<forall>j<nat (?rs ! i).
                 value_names (variables ?t') ! i ! j = upper (alphabet ! j) # py_str (int i)"
  proof (intro allI impI)
    fix i j assume i: "i < length ?rs" and j: "j < nat (?rs ! i)"
    then have m: "(i, ?rs ! i) \<in> set ?ps" by (simp add: enumerate_pairs)
    from assms(2) i j have "j < length (?vn ! i)" by force
    with n m j have "vn' ! i ! j = new_value_name i j" by force
    then show "value_names (variables ?t') ! i ! j = upper (alphabet ! j) # py_str (int i)"
      by (simp add: new_value_name_def)
  qed
  have onames: "\<forall>i<length (operators t).
                  name (operators ?t' ! i) = ''('' @ [alphabet ! i] @ '')''"
    using no by (simp add: new_operator_name_def)
  from res names onames lv lo
  show "\<exists>t'. renamed_sas t = Inr t'
             \<and> (\<forall>i<length ?rs. \<forall>j<nat (?rs ! i).
                   value_names (variables t') ! i ! j = upper (alphabet ! j) # py_str (int i))
             \<and> (\<forall>i<length (operators t).
                   name (operators t' ! i) = ''('' @ [alphabet ! i] @ '')'')
             \<and> ranges (variables t') = ?rs
             \<and> length (value_names (variables t')) = length ?vn
             \<and> length (operators t') = length (operators t)"
    by (intro exI [of _ ?t']) simp
next
  let ?rs = "ranges (variables t)"
  let ?ps = "zip [0..<length ?rs] ?rs"
  assume large: "(\<exists>i<length ?rs. 26 < ?rs ! i) \<or> 26 < length (operators t)"
  have no_result: "renamed_sas t \<noteq> Inr t'" for t'
  proof
    assume "renamed_sas t = Inr t'"
    then obtain vn' ops' where
      v: "rename_variables ?ps (value_names (variables t)) = Inr vn'"
      and o: "rename_operators [0..<length (operators t)] (operators t) = Inr ops'"
      by (auto simp: renamed_sas_def split: sum.splits)
    from rename_variables_Inr_bound [OF v] have "\<forall>i<length ?rs. ?rs ! i \<le> 26"
      by (auto simp: enumerate_pairs)
    moreover from rename_operators_Inr_bound [OF o] have "length (operators t) \<le> 26"
      by (cases "length (operators t)") auto
    ultimately show False using large by auto
  qed
  then obtain e where e: "renamed_sas t = Inl e" by (cases "renamed_sas t") auto
  then have "e = IndexError"
    by (auto simp: renamed_sas_def dest: rename_variables_Inl rename_operators_Inl
        split: sum.splits)
  with e show "renamed_sas t = Inl IndexError" by simp
qed

text \<open>
  Claim C6 as stated fails: with 27 operators the failure is Python's \<open>IndexError\<close>;
  the code has no error of its own for a task that is too large.
\<close>

theorem renamed_sas_names_counterexample:
  "length (operators (many_operators 27)) = 27
   \<and> renamed_sas (many_operators 27) = Inl IndexError"
  by code_simp

theorem renamed_sas_names_witness:
  "renamed_sas (minimal_task True) =
     Inr ((minimal_task True)
            \<lparr>variables := \<lparr>ranges = [2], axiom_layers = [-1], value_names = [[''A0'', ''B0'']]\<rparr>,
             operators := [\<lparr>name = ''(a)'', prevail = [], pre_post = [(0, 0, 1, [])],
                            cost = 1\<rparr>]\<rparr>)
   \<and> renamed_sas (many_operators 27) = Inl IndexError"
proof -
  have a: "length (ranges (variables (many_operators 27)))
             \<le> length (value_names (variables (many_operators 27)))"
    by (simp add: many_operators_def minimal_task_def)
  have b: "\<forall>i<length (ranges (variables (many_operators 27))).
           nat (ranges (variables (many_operators 27)) ! i)
             \<le> length (value_names (variables (many_operators 27)) ! i)"
    by (simp add: many_operators_def minimal_task_def)
  have c: "26 < length (operators (many_operators 27))"
    by (simp add: many_operators_def)
  from renamed_sas_names [OF a b] c have "renamed_sas (many_operators 27) = Inl IndexError"
    by blast
  moreover have "renamed_sas (minimal_task True) =
     Inr ((minimal_task True)
            \<lparr>variables := \<lparr>ranges = [2], axiom_layers = [-1], value_names = [[''A0'', ''B0'']]\<rparr>,
             operators := [\<lparr>name = ''(a)'', prevail = [], pre_post = [(0, 0, 1, [])],
                            cost = 1\<rparr>]\<rparr>)"
    by code_simp
  ultimately show ?thesis by simp
qed

section \<open>Properties of the evaluator entry points\<close>

subsection \<open>Paths\<close>

lemma takeWhile_until:
  "x \<notin> set xs \<Longrightarrow> takeWhile (\<lambda>c. c \<noteq> x) (xs @ x # ys) = xs"
  by (induction xs) auto

lemma os_path_split_dir:
  assumes "CHR ''/'' \<notin> set nm" and "dir \<noteq> []" and "last dir \<noteq> CHR ''/''"
  shows "os_path_split (dir @ CHR ''/'' # nm) = (dir, nm)"
proof -
  let ?p = "dir @ CHR ''/'' # nm"
  have t: "takeWhile (\<lambda>c. c \<noteq> CHR ''/'') (rev nm @ CHR ''/'' # rev dir) = rev nm"
    using assms(1) by (simp add: takeWhile_until)
  have tail: "rev (takeWhile (\<lambda>c. c \<noteq> CHR ''/'') (rev ?p)) = nm"
    using t by simp
  have head: "take (length ?p - length nm) ?p = dir @ [CHR ''/'']"
    by simp
  obtain d ds where dir: "dir = ds @ [d]" using assms(2) by (cases dir rule: rev_cases) auto
  with assms(3) have d: "d \<noteq> CHR ''/''" by simp
  have nonempty: "dir @ [CHR ''/''] \<noteq> []" by simp
  have other: "\<exists>c\<in>set (dir @ [CHR ''/'']). c \<noteq> CHR ''/''"
    using d unfolding dir by (intro bexI [of _ d]) simp_all
  have strip: "rev (dropWhile (\<lambda>c. c = CHR ''/'') (rev (dir @ [CHR ''/'']))) = dir"
    using d unfolding dir by simp
  have "os_path_split ?p =
          (if dir @ [CHR ''/''] \<noteq> [] \<and> (\<exists>c\<in>set (dir @ [CHR ''/'']). c \<noteq> CHR ''/'')
           then rev (dropWhile (\<lambda>c. c = CHR ''/'') (rev (dir @ [CHR ''/''])))
           else dir @ [CHR ''/''], nm)"
    unfolding os_path_split_def Let_def tail head by (rule refl)
  also have "\<dots> = (dir, nm)"
    unfolding strip using nonempty other by (simp only: simp_thms if_True)
  finally show ?thesis .
qed

lemma os_path_splitext_ext:
  assumes "CHR ''/'' \<notin> set base" and "\<exists>c\<in>set base. c \<noteq> CHR ''.''"
    and "CHR ''.'' \<notin> set e" and "CHR ''/'' \<notin> set e"
  shows "os_path_splitext (base @ CHR ''.'' # e) = (base, CHR ''.'' # e)"
proof -
  have f: "takeWhile (\<lambda>c. c \<noteq> CHR ''/'') (rev e @ CHR ''.'' # rev base)
             = rev e @ CHR ''.'' # rev base"
    using assms(1,4) by auto
  have x: "takeWhile (\<lambda>c. c \<noteq> CHR ''.'') (rev e @ CHR ''.'' # rev base) = rev e"
    using assms(3) by (simp add: takeWhile_until)
  show ?thesis
    unfolding os_path_splitext_def Let_def using assms(2) by (simp add: f x)
qed

lemma first_existing_find:
  "first_existing fs d bs = find (\<lambda>f. f \<in> fs) (map (os_path_join d) bs)"
  by (induction bs) (simp_all add: Let_def)

lemma domain_candidate_paths:
  assumes "dir \<noteq> []" and "last dir \<noteq> CHR ''/''"
    and "CHR ''/'' \<notin> set base" and "\<exists>c\<in>set base. c \<noteq> CHR ''.''"
    and "CHR ''.'' \<notin> set e" and "CHR ''/'' \<notin> set e"
  shows "map (os_path_join dir) (domain_basenames (base @ CHR ''.'' # e)) =
           [dir @ ''/domain.pddl'',
            dir @ ''/'' @ base @ ''-domain.'' @ e,
            dir @ ''/'' @ take 3 (base @ ''.'' @ e) @ ''-domain.pddl'',
            dir @ ''/domain_'' @ base @ ''.'' @ e,
            dir @ ''/domain-'' @ base @ ''.'' @ e]"
proof -
  have se: "os_path_splitext (base @ CHR ''.'' # e) = (base, CHR ''.'' # e)"
    using assms(3,4,5,6) by (rule os_path_splitext_ext)
  from assms(4) obtain c cs where base: "base = c # cs" by (cases base) auto
  with assms(3) have c: "c \<noteq> CHR ''/''" by auto
  show ?thesis
    unfolding domain_basenames_def se using assms(1,2) c
    by (simp add: os_path_join_def base)
qed

lemma find_domain_filename_candidates:
  assumes "dir \<noteq> []" and "last dir \<noteq> CHR ''/''"
    and "CHR ''/'' \<notin> set base" and "\<exists>c\<in>set base. c \<noteq> CHR ''.''"
    and "CHR ''.'' \<notin> set e" and "CHR ''/'' \<notin> set e"
  shows "find_domain_filename (dir @ ''/'' @ base @ ''.'' @ e) w =
           (case find (\<lambda>f. f \<in> files w)
                   [dir @ ''/domain.pddl'',
                    dir @ ''/'' @ base @ ''-domain.'' @ e,
                    dir @ ''/'' @ take 3 (base @ ''.'' @ e) @ ''-domain.pddl'',
                    dir @ ''/domain_'' @ base @ ''.'' @ e,
                    dir @ ''/domain-'' @ base @ ''.'' @ e] of
              Some f \<Rightarrow> (Some f, w)
            | None \<Rightarrow>
                (None,
                 w\<lparr>logged := logged w @
                      [Critical (''Error: Could not find domain file using automatic ''
                                 @ ''naming rules.'')]\<rparr>))"
proof -
  have nm: "CHR ''/'' \<notin> set (base @ CHR ''.'' # e)" using assms(3,6) by simp
  have sp: "os_path_split (dir @ CHR ''/'' # base @ CHR ''.'' # e) = (dir, base @ CHR ''.'' # e)"
    using nm assms(1,2) by (rule os_path_split_dir)
  have eq: "dir @ ''/'' @ base @ ''.'' @ e = dir @ CHR ''/'' # base @ CHR ''.'' # e" by simp
  have h: "find_domain_filename (dir @ ''/'' @ base @ ''.'' @ e) w =
           (case first_existing (files w) dir (domain_basenames (base @ CHR ''.'' # e)) of
              Some f \<Rightarrow> (Some f, w)
            | None \<Rightarrow>
                (None,
                 w\<lparr>logged := logged w @
                      [Critical (''Error: Could not find domain file using automatic ''
                                 @ ''naming rules.'')]\<rparr>))"
    unfolding eq find_domain_filename_def sp by simp
  show ?thesis
    unfolding h first_existing_find domain_candidate_paths [OF assms] by (rule refl)
qed

lemma pddl_run_evaluator_fallback:
  assumes "read_state task = Inl FileNotFoundError \<or> read_state task = Inl PickleError"
  shows "pddl_run_evaluator mktemp read_state write_state evaluate [script, task] w =
           (case find_domain_filename task w of
              (domain_filename, w') \<Rightarrow>
                run_evaluator_on_pddl_files evaluate domain_filename task w')"
  using assms by (auto simp: pddl_run_evaluator_def Let_def)

text \<open>
  Claim C7, as amended. The task file is \<open>dir/base.ext\<close>: \<open>dir\<close> is not empty and does
  not end in a slash, \<open>base\<close> has no slash and is not made of dots only, \<open>ext\<close> has
  neither dot nor slash. \<open>_find_domain_filename\<close> goes through \<open>dir/domain.pddl\<close>,
  \<open>dir/base-domain.ext\<close>, \<open>dir/\<close> followed by the first three characters of
  \<open>base.ext\<close> and \<open>-domain.pddl\<close>, \<open>dir/domain_base.ext\<close> and \<open>dir/domain-base.ext\<close>
  in this order and returns the first one that exists, leaving the log as it is; when
  none exists it logs a critical error. When the one file given to \<open>run_evaluator\<close> is
  no state (reading it raises \<open>FileNotFoundError\<close> or \<open>PickleError\<close>) and a candidate
  exists, the evaluator is run on the first existing candidate and the task file.
\<close>

theorem domain_candidates:
  assumes "dir \<noteq> []" and "last dir \<noteq> CHR ''/''"
    and "CHR ''/'' \<notin> set base" and "\<exists>c\<in>set base. c \<noteq> CHR ''.''"
    and "CHR ''.'' \<notin> set e" and "CHR ''/'' \<notin> set e"
  shows "(case find (\<lambda>f. f \<in> files w)
                 [dir @ ''/domain.pddl'',
                  dir @ ''/'' @ base @ ''-domain.'' @ e,
                  dir @ ''/'' @ take 3 (base @ ''.'' @ e) @ ''-domain.pddl'',
                  dir @ ''/domain_'' @ base @ ''.'' @ e,
                  dir @ ''/domain-'' @ base @ ''.'' @ e] of
            Some f \<Rightarrow>
              find_domain_filename (dir @ ''/'' @ base @ ''.'' @ e) w = (Some f, w)
              \<and> (read_state (dir @ ''/'' @ base @ ''.'' @ e) = Inl FileNotFoundError
                   \<or> read_state (dir @ ''/'' @ base @ ''.'' @ e) = Inl PickleError \<longrightarrow>
                 pddl_run_evaluator mktemp read_state write_state evaluate
                     [script, dir @ ''/'' @ base @ ''.'' @ e] w
                   = run_evaluator_on_pddl_files evaluate (Some f)
                       (dir @ ''/'' @ base @ ''.'' @ e) w)
          | None \<Rightarrow>
              logged (snd (find_domain_filename (dir @ ''/'' @ base @ ''.'' @ e) w))
                = logged w @ [Critical (''Error: Could not find domain file using automatic ''
                                        @ ''naming rules.'')])"
proof (cases "find (\<lambda>f. f \<in> files w)
                 [dir @ ''/domain.pddl'',
                  dir @ ''/'' @ base @ ''-domain.'' @ e,
                  dir @ ''/'' @ take 3 (base @ ''.'' @ e) @ ''-domain.pddl'',
                  dir @ ''/domain_'' @ base @ ''.'' @ e,
                  dir @ ''/domain-'' @ base @ ''.'' @ e]")
  case None
  with find_domain_filename_candidates [OF assms, of w] show ?thesis by simp
next
  case (Some f)
  with find_domain_filename_candidates [OF assms, of w]
  have r: "find_domain_filename (dir @ ''/'' @ base @ ''.'' @ e) w = (Some f, w)" by simp
  have "pddl_run_evaluator mktemp read_state write_state evaluate
            [script, dir @ ''/'' @ base @ ''.'' @ e] w
          = run_evaluator_on_pddl_files evaluate (Some f) (dir @ ''/'' @ base @ ''.'' @ e) w"
    if "read_state (dir @ ''/'' @ base @ ''.'' @ e) = Inl FileNotFoundError
        \<or> read_state (dir @ ''/'' @ base @ ''.'' @ e) = Inl PickleError"
    using pddl_run_evaluator_fallback [where read_state = read_state
        and task = "dir @ ''/'' @ base @ ''.'' @ e" and mktemp = mktemp
        and write_state = write_state and evaluate = evaluate and script = script and w = w]
      that
    by (simp only: r prod.case)
  with r Some show ?thesis by simp
qed

text \<open>
  Claim C7 as stated fails. For the task file \<open>d/p1.txt\<close> the third candidate is
  \<open>d/p1.-domain.pddl\<close>, made from the first three characters of \<open>p1.txt\<close>, not
  \<open>d/p1-domain.pddl\<close>: where only the latter exists, no domain file is found. And
  where no candidate exists, \<open>run_evaluator\<close> goes on after the critical error is
  logged: the evaluator is called without a domain file, and its answer decides the exit
  code.
\<close>

theorem domain_candidates_counterexample:
  "find_domain_filename ''d/p1.txt''
       \<lparr>files = {''d/p1.txt'', ''d/p1-domain.pddl''}, logged = []\<rparr>
     = (None, \<lparr>files = {''d/p1.txt'', ''d/p1-domain.pddl''},
               logged = [Critical (''Error: Could not find domain file using automatic ''
                                   @ ''naming rules.'')]\<rparr>)
   \<and> pddl_run_evaluator tmp_name not_a_state writes_both (pddl_answers True)
         [''evaluator.py'', ''d/p1.txt''] \<lparr>files = {''d/p1.txt''}, logged = []\<rparr>
     = (Inl (SystemExit EXIT_CODE_IMPROVING),
        \<lparr>files = {''d/p1.txt''},
         logged = [Critical (''Error: Could not find domain file using automatic ''
                             @ ''naming rules.'')]\<rparr>)
   \<and> EXIT_CODE_IMPROVING \<noteq> EXIT_CODE_CRITICAL"
  by (simp add: find_domain_filename_def os_path_split_def os_path_splitext_def
      domain_basenames_def os_path_join_def pddl_run_evaluator_def not_a_state_def
      run_evaluator_on_pddl_files_def pddl_answers_def EXIT_CODE_IMPROVING_def
      EXIT_CODE_CRITICAL_def Let_def)

theorem domain_candidates_witness:
  "find_domain_filename ''d/p01.pddl''
       \<lparr>files = {''d/p01.pddl'', ''d/domain_p01.pddl'', ''d/p01-domain.pddl''}, logged = []\<rparr>
     = (Some ''d/p01-domain.pddl'',
        \<lparr>files = {''d/p01.pddl'', ''d/domain_p01.pddl'', ''d/p01-domain.pddl''}, logged = []\<rparr>)"
  using domain_candidates [of "''d''" "''p01''" "''pddl''"
      "\<lparr>files = {''d/p01.pddl'', ''d/domain_p01.pddl'', ''d/p01-domain.pddl''}, logged = []\<rparr>"
      not_a_state tmp_name writes_both "pddl_answers True" "''evaluator.py''"]
  by simp

subsection \<open>Temporary files\<close>

text \<open>
  Claim C8 fails on the code. When the body of the \<open>with\<close> statement raises, the
  context managers \<open>temporary_file\<close> and \<open>temporary_files\<close> give the exception on and
  the world as the body left it: nothing is removed. In \<open>run_evaluator\<close> the body
  always raises \<open>SystemExit\<close>, so with a state that loads and an evaluator that returns,
  the program exits with the world as the evaluator left it; with an evaluator that
  leaves the files alone, the temporary files are still there.
\<close>

theorem temporary_files_left_behind:
  "(write_task (mktemp (files w) ''.sas'') = None
      \<and> body (mktemp (files w) ''.sas'')
           (w\<lparr>files := insert (mktemp (files w) ''.sas'') (files w)\<rparr>) = (Inl ex, w2) \<longrightarrow>
    temporary_file mktemp write_task body w = (Inl ex, w2))
   \<and> (write_tasks (mktemp (files w) ''.pddl'')
          (mktemp (insert (mktemp (files w) ''.pddl'') (files w)) ''.pddl'') = None
      \<and> bodies (mktemp (files w) ''.pddl'',
                 mktemp (insert (mktemp (files w) ''.pddl'') (files w)) ''.pddl'')
           (w\<lparr>files := insert (mktemp (insert (mktemp (files w) ''.pddl'') (files w)) ''.pddl'')
                           (insert (mktemp (files w) ''.pddl'') (files w))\<rparr>) = (Inl ex, w2) \<longrightarrow>
    temporary_files mktemp write_tasks bodies w = (Inl ex, w2))
   \<and> (read_state path = Inr st \<and> write_state st (mktemp (files w) ''.sas'') = None
      \<and> evaluate (mktemp (files w) ''.sas'')
           (w\<lparr>files := insert (mktemp (files w) ''.sas'') (files w)\<rparr>) = (Inr b, w2) \<longrightarrow>
    sas_run_evaluator mktemp read_state write_state evaluate [script, path] w
      = (Inl (SystemExit (if b then EXIT_CODE_BEHAVIOR_PRESENT
                          else EXIT_CODE_BEHAVIOR_NOT_PRESENT)), w2))
   \<and> (read_state path = Inr st
      \<and> write_states st (mktemp (files w) ''.pddl'')
          (mktemp (insert (mktemp (files w) ''.pddl'') (files w)) ''.pddl'') = None
      \<and> evaluates (Some (mktemp (files w) ''.pddl''))
           (mktemp (insert (mktemp (files w) ''.pddl'') (files w)) ''.pddl'')
           (w\<lparr>files := insert (mktemp (insert (mktemp (files w) ''.pddl'') (files w)) ''.pddl'')
                           (insert (mktemp (files w) ''.pddl'') (files w))\<rparr>) = (Inr b, w2) \<longrightarrow>
    pddl_run_evaluator mktemp read_state write_states evaluates [script, path] w
      = (Inl (SystemExit (if b then EXIT_CODE_IMPROVING else EXIT_CODE_NOT_IMPROVING)), w2))
   \<and> sas_run_evaluator mktemp loads writes (answers b) [script, path] w
      = (Inl (SystemExit (if b then EXIT_CODE_BEHAVIOR_PRESENT
                          else EXIT_CODE_BEHAVIOR_NOT_PRESENT)),
         w\<lparr>files := insert (mktemp (files w) ''.sas'') (files w)\<rparr>)
   \<and> pddl_run_evaluator mktemp loads writes_both (pddl_answers b) [script, path] w
      = (Inl (SystemExit (if b then EXIT_CODE_IMPROVING else EXIT_CODE_NOT_IMPROVING)),
         w\<lparr>files := insert (mktemp (insert (mktemp (files w) ''.pddl'') (files w)) ''.pddl'')
                         (insert (mktemp (files w) ''.pddl'') (files w))\<rparr>)"
  apply (intro conjI impI)
  subgoal by (simp add: temporary_file_def Let_def)
  subgoal by (simp add: temporary_files_def Let_def)
  subgoal
    by (simp add: sas_run_evaluator_def temporary_file_def run_evaluator_on_sas_file_def Let_def)
  subgoal
    by (simp add: pddl_run_evaluator_def temporary_files_def run_evaluator_on_pddl_files_def
        Let_def)
  subgoal
    by (simp add: sas_run_evaluator_def temporary_file_def run_evaluator_on_sas_file_def Let_def
        loads_def writes_def answers_def)
  subgoal
    by (simp add: pddl_run_evaluator_def temporary_files_def run_evaluator_on_pddl_files_def
        Let_def loads_def writes_both_def pddl_answers_def)
  done

theorem temporary_files_left_behind_witness:
  "sas_run_evaluator tmp_name loads writes (answers True) [''evaluator.py'', ''state.pickle'']
       \<lparr>files = {''state.pickle''}, logged = []\<rparr>
     = (Inl (SystemExit EXIT_CODE_BEHAVIOR_PRESENT),
        \<lparr>files = {''/tmp/tmp0.sas'', ''state.pickle''}, logged = []\<rparr>)"
proof -
  let ?w = "\<lparr>files = {''state.pickle''}, logged = []\<rparr>"
  let ?w2 = "\<lparr>files = {''/tmp/tmp0.sas'', ''state.pickle''}, logged = []\<rparr>"
  have h: "loads ''state.pickle'' = Inr ()
        \<and> writes () (tmp_name (files ?w) ''.sas'') = None
        \<and> answers True (tmp_name (files ?w) ''.sas'')
            (?w\<lparr>files := insert (tmp_name (files ?w) ''.sas'') (files ?w)\<rparr>) = (Inr True, ?w2)"
    by (simp add: loads_def writes_def answers_def tmp_name_def)
  from temporary_files_left_behind [where read_state = loads and path = "''state.pickle''"
      and st = "()" and write_state = writes and mktemp = tmp_name and w = ?w
      and evaluate = "answers True" and b = True and script = "''evaluator.py''"
      and ?w2.0 = ?w2, THEN conjunct2, THEN conjunct2, THEN conjunct1, THEN mp, OF h]
  show ?thesis by simp
qed

end
